theory Spec2Isabelle
  imports Complex_Main
begin

section \<open>Strings and runes\<close>

text \<open>
  A Go string is a sequence of bytes; \<open>len\<close> counts bytes. A \<open>for _, c := range s\<close>
  loop walks the string by UTF-8 code points: each iteration yields one rune and
  advances by the width of its encoding, and a byte sequence that is not a valid encoding
  yields the replacement rune \<open>0xFFFD\<close> and advances by one byte.
  A byte is a \<^typ>\<open>char\<close>, a rune is an \<^typ>\<open>int\<close>.
\<close>

definition RuneError :: int where
  "RuneError = 65533"

definition cont_byte :: "nat \<Rightarrow> bool" where
  "cont_byte b = (128 \<le> b \<and> b \<le> 191)"

text \<open>
  The range of the second byte that each leading byte accepts, and the number of bytes of
  the encoding; \<open>None\<close> for a byte that cannot start a multi-byte encoding.
\<close>

definition lead_info :: "nat \<Rightarrow> (nat \<times> nat \<times> nat) option" where
  "lead_info b0 =
     (if 194 \<le> b0 \<and> b0 \<le> 223 then Some (2, 128, 191)
      else if b0 = 224 then Some (3, 160, 191)
      else if 225 \<le> b0 \<and> b0 \<le> 236 then Some (3, 128, 191)
      else if b0 = 237 then Some (3, 128, 159)
      else if 238 \<le> b0 \<and> b0 \<le> 239 then Some (3, 128, 191)
      else if b0 = 240 then Some (4, 144, 191)
      else if 241 \<le> b0 \<and> b0 \<le> 243 then Some (4, 128, 191)
      else if b0 = 244 then Some (4, 128, 143)
      else None)"

text \<open>The code point that two, three and four bytes encode.\<close>

definition rune2 :: "nat \<Rightarrow> nat \<Rightarrow> int" where
  "rune2 b0 b1 = int ((b0 mod 32) * 64 + b1 mod 64)"

definition rune3 :: "nat \<Rightarrow> nat \<Rightarrow> nat \<Rightarrow> int" where
  "rune3 b0 b1 b2 = int ((b0 mod 16) * 4096 + (b1 mod 64) * 64 + b2 mod 64)"

definition rune4 :: "nat \<Rightarrow> nat \<Rightarrow> nat \<Rightarrow> nat \<Rightarrow> int" where
  "rune4 b0 b1 b2 b3 =
     int ((b0 mod 8) * 262144 + (b1 mod 64) * 4096 + (b2 mod 64) * 64 + b3 mod 64)"

text \<open>The rune at the head of a byte sequence, and the width of its encoding.\<close>

fun decode_rune :: "nat list \<Rightarrow> int \<times> nat" where
  "decode_rune [] = (RuneError, 0)"
| "decode_rune (b0 # bs) =
     (if b0 < 128 then (int b0, 1)
      else case lead_info b0 of
        None \<Rightarrow> (RuneError, 1)
      | Some (sz, lo, hi) \<Rightarrow>
          if length bs + 1 < sz then (RuneError, 1)
          else
            let b1 = bs ! 0 in
            if b1 < lo \<or> hi < b1 then (RuneError, 1)
            else if sz \<le> 2 then (rune2 b0 b1, 2)
            else
              let b2 = bs ! 1 in
              if \<not> cont_byte b2 then (RuneError, 1)
              else if sz \<le> 3 then (rune3 b0 b1 b2, 3)
              else
                let b3 = bs ! 2 in
                if \<not> cont_byte b3 then (RuneError, 1)
                else (rune4 b0 b1 b2 b3, 4))"

section \<open>The validator\<close>

text \<open>
  The loop of \<open>validateCEP\<close>: it returns false at the first rune outside \<open>'0'..'9'\<close>
  (48 to 57) and true when the string is exhausted.
\<close>

function all_digits_loop :: "nat list \<Rightarrow> bool" where
  "all_digits_loop bs =
     (if bs = [] then True
      else
        let (r, w) = decode_rune bs in
        if r < 48 \<or> r > 57 then False
        else all_digits_loop (drop w bs))"
  by pat_completeness auto
termination
proof (relation "measure length")
  show "wf (measure length)" by simp
next
  fix bs :: "nat list" and x :: "int \<times> nat" and r :: int and w :: nat
  assume ne: "bs \<noteq> []" and x: "x = decode_rune bs" and rw: "(r, w) = x"
  have "1 \<le> snd (decode_rune bs)"
    using ne by (cases bs) (auto simp: Let_def split: option.splits)
  then have "1 \<le> w" using x rw by (metis snd_conv)
  then show "(drop w bs, bs) \<in> measure length" using ne by (cases bs) auto
qed

declare all_digits_loop.simps [simp del]

text \<open>\<open>validateCEP\<close> of the Gateway (servico-a).\<close>

definition validateCEP :: "string \<Rightarrow> bool" where
  "validateCEP cep =
     (if length cep \<noteq> 8 then False
      else all_digits_loop (map of_char cep))"

text \<open>\<open>validateCEP\<close> of the Resolver (servico-b), a separate function with the same text.\<close>

definition validateCEP_b :: "string \<Rightarrow> bool" where
  "validateCEP_b cep =
     (if length cep \<noteq> 8 then False
      else all_digits_loop (map of_char cep))"

text \<open>A decimal digit \<open>'0'..'9'\<close>, as a byte.\<close>

definition is_digit :: "char \<Rightarrow> bool" where
  "is_digit c = (48 \<le> (of_char c :: nat) \<and> (of_char c :: nat) \<le> 57)"

section \<open>The runtime and the standard library\<close>

text \<open>
  Both services are written against Go's standard library. What the handlers need of it is
  collected here. A \<open>float64\<close> is a value of the type parameter \<open>'n\<close>; its arithmetic,
  the text form of JSON documents and the escaping functions are operations of the
  library, given as the fields of a record and never computed by this theory.
\<close>

datatype 'n json =
    JNull
  | JBool bool
  | JNum 'n
  | JStr string
  | JArr "'n json list"
  | JObj "(string \<times> 'n json) list"

record 'n lib =
  fmul :: "'n \<Rightarrow> 'n \<Rightarrow> 'n"  \<comment> \<open>\<open>float64\<close> multiplication\<close>
  fadd :: "'n \<Rightarrow> 'n \<Rightarrow> 'n"  \<comment> \<open>\<open>float64\<close> addition\<close>
  fzero :: 'n  \<comment> \<open>the zero value of \<open>float64\<close>\<close>
  lit_1_8 :: 'n  \<comment> \<open>the constant \<open>1.8\<close> as a \<open>float64\<close>\<close>
  lit_32 :: 'n  \<comment> \<open>the constant \<open>32\<close>\<close>
  lit_273 :: 'n  \<comment> \<open>the constant \<open>273\<close>\<close>
  unsupported :: "'n \<Rightarrow> bool"  \<comment> \<open>the values \<open>encoding/json\<close> refuses to write (NaN, infinities)\<close>
  render :: "'n json \<Rightarrow> string"  \<comment> \<open>the text \<open>encoding/json\<close> writes for a document\<close>
  parse :: "string \<Rightarrow> string + 'n json"  \<comment> \<open>reading a document from text, or a syntax error\<close>
  equal_fold :: "string \<Rightarrow> string \<Rightarrow> bool"  \<comment> \<open>case-insensitive match of a key and a field name\<close>
  quote :: "string \<Rightarrow> string"  \<comment> \<open>the verb \<open>%q\<close>\<close>
  query_escape :: "string \<Rightarrow> string"  \<comment> \<open>\<open>url.QueryEscape\<close>\<close>

definition nl :: string where
  "nl = [CHR 0x0A]"

definition dquote :: string where
  "dquote = [CHR 0x22]"

definition backslash :: string where
  "backslash = [CHR 0x5C]"

text \<open>The verb \<open>%d\<close> on a status code: its decimal digits.\<close>

definition digit_char :: "nat \<Rightarrow> char" where
  "digit_char d = char_of (48 + d)"

function dec :: "nat \<Rightarrow> string" where
  "dec n = (if n < 10 then [digit_char n] else dec (n div 10) @ [digit_char (n mod 10)])"
  by pat_completeness auto
termination
  by (relation "measure id") auto

declare dec.simps [simp del]

subsection \<open>Decoding a document into a struct\<close>

text \<open>
  \<open>json.Unmarshal\<close> into a struct: \<open>null\<close> leaves the target as it is; an object sets,
  member by member in the order of the text, the field whose tag is the key (exactly, or
  else up to case); a key without a field is skipped; a value of the wrong kind is a type
  error, and the first such error is the result once the whole object has been read; any
  other document is a type error.
\<close>

fun kind :: "'n json \<Rightarrow> string" where
  "kind JNull = ''null''"
| "kind (JBool _) = ''bool''"
| "kind (JNum _) = ''number''"
| "kind (JStr _) = ''string''"
| "kind (JArr _) = ''array''"
| "kind (JObj _) = ''object''"

definition field_type_error :: "string \<Rightarrow> string \<Rightarrow> string \<Rightarrow> string" where
  "field_type_error k path ty =
     ''json: cannot unmarshal '' @ k @ '' into Go struct field '' @ path @ '' of type '' @ ty"

definition value_type_error :: "string \<Rightarrow> string \<Rightarrow> string" where
  "value_type_error k ty =
     ''json: cannot unmarshal '' @ k @ '' into Go value of type '' @ ty"

definition field_for :: "'n lib \<Rightarrow> string list \<Rightarrow> string \<Rightarrow> string option" where
  "field_for L names key =
     (if key \<in> set names then Some key else find (\<lambda>n. equal_fold L n key) names)"

fun dec_string :: "string \<Rightarrow> 'n json \<Rightarrow> string \<Rightarrow> string + string" where
  "dec_string path JNull cur = Inr cur"
| "dec_string path (JStr x) cur = Inr x"
| "dec_string path v cur = Inl (field_type_error (kind v) path ''string'')"

fun dec_bool :: "string \<Rightarrow> 'n json \<Rightarrow> bool \<Rightarrow> string + bool" where
  "dec_bool path JNull cur = Inr cur"
| "dec_bool path (JBool x) cur = Inr x"
| "dec_bool path v cur = Inl (field_type_error (kind v) path ''bool'')"

fun dec_float64 :: "string \<Rightarrow> 'n json \<Rightarrow> 'n \<Rightarrow> string + 'n" where
  "dec_float64 path JNull cur = Inr cur"
| "dec_float64 path (JNum x) cur = Inr x"
| "dec_float64 path v cur = Inl (field_type_error (kind v) path ''float64'')"


text \<open>
  The members of an object, in order. The state is the first error seen so far and the
  struct; a member that fails leaves the struct as it was.
\<close>

fun decode_members ::
  "(string \<Rightarrow> 'n json \<Rightarrow> 's \<Rightarrow> string + 's) \<Rightarrow> (string \<times> 'n json) list
     \<Rightarrow> string option \<times> 's \<Rightarrow> string option \<times> 's" where
  "decode_members set_field [] acc = acc"
| "decode_members set_field ((k, v) # ms) (e, s) =
     (case set_field k v s of
        Inl err \<Rightarrow> decode_members set_field ms (if e = None then Some err else e, s)
      | Inr s' \<Rightarrow> decode_members set_field ms (e, s'))"

definition decode_struct ::
  "string \<Rightarrow> (string \<Rightarrow> 'n json \<Rightarrow> 's \<Rightarrow> string + 's) \<Rightarrow> 's \<Rightarrow> 'n json \<Rightarrow> string + 's" where
  "decode_struct ty set_field zero j =
     (case j of
        JNull \<Rightarrow> Inr zero
      | JObj ms \<Rightarrow>
          (case decode_members set_field ms (None, zero) of
             (Some e, _) \<Rightarrow> Inl e
           | (None, s) \<Rightarrow> Inr s)
      | _ \<Rightarrow> Inl (value_type_error (kind j) ty))"

text \<open>\<open>json.Unmarshal(data, &v)\<close>: parse the text, then decode the document.\<close>

definition unmarshal :: "'n lib \<Rightarrow> ('n json \<Rightarrow> string + 's) \<Rightarrow> string \<Rightarrow> string + 's" where
  "unmarshal L decode data =
     (case parse L data of Inl e \<Rightarrow> Inl e | Inr j \<Rightarrow> decode j)"

subsection \<open>Responses\<close>

record response =
  status :: nat
  content_type :: "string option"  \<comment> \<open>the header when the handler sets it\<close>
  body :: string

text \<open>
  \<open>w.WriteHeader(code)\<close> followed by \<open>json.NewEncoder(w).Encode(map[string]string{"error": msg})\<close>:
  the text of the object and a newline.
\<close>

definition error_doc :: "string \<Rightarrow> 'n json" where
  "error_doc msg = JObj [(''error'', JStr msg)]"

definition write_error_json :: "'n lib \<Rightarrow> nat \<Rightarrow> string \<Rightarrow> response" where
  "write_error_json L code msg =
     \<lparr>status = code, content_type = None, body = render L (error_doc msg) @ nl\<rparr>"

text \<open>\<open>http.Error(w, msg, code)\<close>: the message and a newline, as plain text.\<close>

definition http_Error :: "string \<Rightarrow> nat \<Rightarrow> response" where
  "http_Error msg code =
     \<lparr>status = code, content_type = Some ''text/plain; charset=utf-8'', body = msg @ nl\<rparr>"

text \<open>
  What an HTTP call gives back: a status and the outcome of \<open>io.ReadAll\<close> on the body
  (the bytes read, and the read error if there was one).
\<close>

record http_response =
  StatusCode :: nat
  body_data :: string
  body_err :: "string option"

text \<open>
  An error of \<open>http.Get\<close> or \<open>client.Do\<close> is a \<open>*url.Error\<close>; its text is the
  operation, the quoted URL and the text of the cause.
\<close>

definition url_error :: "'n lib \<Rightarrow> string \<Rightarrow> string \<Rightarrow> string \<Rightarrow> string" where
  "url_error L op u cause = op @ '' '' @ quote L u @ '': '' @ cause"

text \<open>\<open>Header.Get\<close>: the value stored under the key, or the empty string.\<close>

definition header_Get :: "(string \<times> string) list \<Rightarrow> string \<Rightarrow> string" where
  "header_Get hs k = (case map_of hs k of None \<Rightarrow> [] | Some v \<Rightarrow> v)"

section \<open>The Resolver (servico-b)\<close>

text \<open>
  Spans, their attributes and the log lines are not part of the model. A handler returns
  its response together with the URLs it has fetched, in order.
\<close>

record ViaCEPResponse =
  Cep :: string
  Logradouro :: string
  Complemento :: string
  Bairro :: string
  Localidade :: string
  UF :: string
  Erro :: bool

record 'n WeatherAPIResponse =
  Location_Name :: string
  Current_TempC :: 'n

text \<open>\<open>TemperatureResponse\<close>; its fields carry the suffix \<open>_b\<close> next to those of the Gateway's \<open>CEPResponse\<close>.\<close>

record 'n TemperatureResponse =
  City_b :: string
  TempC_b :: 'n
  TempF_b :: 'n
  TempK_b :: 'n

record env_b =
  getenv_b :: "string \<Rightarrow> string"  \<comment> \<open>\<open>os.Getenv\<close>: the empty string for an unset variable\<close>
  http_Get :: "string \<Rightarrow> string + http_response"  \<comment> \<open>\<open>http.Get\<close> by URL; \<open>Inl\<close> the cause of a transport failure\<close>

definition ViaCEPResponse_zero :: ViaCEPResponse where
  "ViaCEPResponse_zero =
     \<lparr>Cep = [], Logradouro = [], Complemento = [], Bairro = [], Localidade = [], UF = [],
      Erro = False\<rparr>"

definition ViaCEPResponse_fields :: "string list" where
  "ViaCEPResponse_fields =
     [''cep'', ''logradouro'', ''complemento'', ''bairro'', ''localidade'', ''uf'', ''erro'']"

definition ViaCEPResponse_set ::
  "'n lib \<Rightarrow> string \<Rightarrow> 'n json \<Rightarrow> ViaCEPResponse \<Rightarrow> string + ViaCEPResponse" where
  "ViaCEPResponse_set L k v s =
     (case field_for L ViaCEPResponse_fields k of
        None \<Rightarrow> Inr s
      | Some f \<Rightarrow>
          if f = ''cep'' then
            map_sum id (\<lambda>x. s\<lparr>Cep := x\<rparr>) (dec_string ''ViaCEPResponse.cep'' v (Cep s))
          else if f = ''logradouro'' then
            map_sum id (\<lambda>x. s\<lparr>Logradouro := x\<rparr>)
              (dec_string ''ViaCEPResponse.logradouro'' v (Logradouro s))
          else if f = ''complemento'' then
            map_sum id (\<lambda>x. s\<lparr>Complemento := x\<rparr>)
              (dec_string ''ViaCEPResponse.complemento'' v (Complemento s))
          else if f = ''bairro'' then
            map_sum id (\<lambda>x. s\<lparr>Bairro := x\<rparr>) (dec_string ''ViaCEPResponse.bairro'' v (Bairro s))
          else if f = ''localidade'' then
            map_sum id (\<lambda>x. s\<lparr>Localidade := x\<rparr>)
              (dec_string ''ViaCEPResponse.localidade'' v (Localidade s))
          else if f = ''uf'' then
            map_sum id (\<lambda>x. s\<lparr>UF := x\<rparr>) (dec_string ''ViaCEPResponse.uf'' v (UF s))
          else
            map_sum id (\<lambda>x. s\<lparr>Erro := x\<rparr>) (dec_bool ''ViaCEPResponse.erro'' v (Erro s)))"

definition decode_ViaCEPResponse :: "'n lib \<Rightarrow> 'n json \<Rightarrow> string + ViaCEPResponse" where
  "decode_ViaCEPResponse L =
     decode_struct ''main.ViaCEPResponse'' (ViaCEPResponse_set L) ViaCEPResponse_zero"

text \<open>The two anonymous structs inside \<open>WeatherAPIResponse\<close>, and their types as Go prints them.\<close>

definition Location_type :: string where
  "Location_type =
     ''struct { Name string '' @ dquote @ ''json:'' @ backslash @ dquote @ ''name''
       @ backslash @ dquote @ dquote @ '' }''"

definition Current_type :: string where
  "Current_type =
     ''struct { TempC float64 '' @ dquote @ ''json:'' @ backslash @ dquote @ ''temp_c''
       @ backslash @ dquote @ dquote @ '' }''"

definition Location_set :: "'n lib \<Rightarrow> string \<Rightarrow> 'n json \<Rightarrow> string \<Rightarrow> string + string" where
  "Location_set L k v name =
     (case field_for L [''name''] k of
        None \<Rightarrow> Inr name
      | Some f \<Rightarrow> dec_string ''WeatherAPIResponse.location.name'' v name)"

definition Current_set :: "'n lib \<Rightarrow> string \<Rightarrow> 'n json \<Rightarrow> 'n \<Rightarrow> string + 'n" where
  "Current_set L k v t =
     (case field_for L [''temp_c''] k of
        None \<Rightarrow> Inr t
      | Some f \<Rightarrow> dec_float64 ''WeatherAPIResponse.current.temp_c'' v t)"

text \<open>A struct-typed field: \<open>null\<close> leaves it, an object is decoded into it, anything else is a type error.\<close>

definition dec_nested ::
  "string \<Rightarrow> string \<Rightarrow> (string \<Rightarrow> 'n json \<Rightarrow> 's \<Rightarrow> string + 's) \<Rightarrow> 'n json \<Rightarrow> 's \<Rightarrow> string + 's" where
  "dec_nested path ty set_field v cur =
     (case v of
        JNull \<Rightarrow> Inr cur
      | JObj ms \<Rightarrow>
          (case decode_members set_field ms (None, cur) of
             (Some e, _) \<Rightarrow> Inl e
           | (None, s) \<Rightarrow> Inr s)
      | _ \<Rightarrow> Inl (field_type_error (kind v) path ty))"

definition WeatherAPIResponse_set ::
  "'n lib \<Rightarrow> string \<Rightarrow> 'n json \<Rightarrow> 'n WeatherAPIResponse \<Rightarrow> string + 'n WeatherAPIResponse" where
  "WeatherAPIResponse_set L k v s =
     (case field_for L [''location'', ''current''] k of
        None \<Rightarrow> Inr s
      | Some f \<Rightarrow>
          if f = ''location'' then
            map_sum id (\<lambda>x. s\<lparr>Location_Name := x\<rparr>)
              (dec_nested ''WeatherAPIResponse.location'' Location_type (Location_set L) v
                 (Location_Name s))
          else
            map_sum id (\<lambda>x. s\<lparr>Current_TempC := x\<rparr>)
              (dec_nested ''WeatherAPIResponse.current'' Current_type (Current_set L) v
                 (Current_TempC s)))"

definition decode_WeatherAPIResponse :: "'n lib \<Rightarrow> 'n json \<Rightarrow> string + 'n WeatherAPIResponse" where
  "decode_WeatherAPIResponse L =
     decode_struct ''main.WeatherAPIResponse'' (WeatherAPIResponse_set L)
       \<lparr>Location_Name = [], Current_TempC = fzero L\<rparr>"

definition celsiusToFahrenheit :: "'n lib \<Rightarrow> 'n \<Rightarrow> 'n" where
  "celsiusToFahrenheit L c = fadd L (fmul L c (lit_1_8 L)) (lit_32 L)"

definition celsiusToKelvin :: "'n lib \<Rightarrow> 'n \<Rightarrow> 'n" where
  "celsiusToKelvin L c = fadd L c (lit_273 L)"

definition directory_url :: "string \<Rightarrow> string" where
  "directory_url cep = ''https://viacep.com.br/ws/'' @ cep @ ''/json/''"

definition searchCEP ::
  "'n lib \<Rightarrow> env_b \<Rightarrow> string \<Rightarrow> (string + ViaCEPResponse) \<times> string list" where
  "searchCEP L E cep =
     (let u = directory_url cep in
      case http_Get E u of
        Inl cause \<Rightarrow> (Inl (url_error L ''Get'' u cause), [u])
      | Inr resp \<Rightarrow>
          if StatusCode resp = 400 then (Inl ''invalid zipcode'', [u])
          else case body_err resp of
            Some e \<Rightarrow> (Inl e, [u])
          | None \<Rightarrow>
              (case unmarshal L (decode_ViaCEPResponse L) (body_data resp) of
                 Inl e \<Rightarrow> (Inl e, [u])
               | Inr viaCEPResp \<Rightarrow>
                   if Erro viaCEPResp then (Inl ''can not find zipcode'', [u])
                   else (Inr viaCEPResp, [u])))"

definition weather_url :: "'n lib \<Rightarrow> string \<Rightarrow> string \<Rightarrow> string" where
  "weather_url L weatherAPIKey city =
     ''http://api.weatherapi.com/v1/current.json?key='' @ weatherAPIKey @ ''&q=''
       @ query_escape L city @ ''&aqi=no''"

definition getTemperature ::
  "'n lib \<Rightarrow> env_b \<Rightarrow> string \<Rightarrow> (string + 'n) \<times> string list" where
  "getTemperature L E city =
     (let weatherAPIKey = getenv_b E ''WEATHER_API_KEY'' in
      if weatherAPIKey = [] then (Inl ''WEATHER_API_KEY not set'', [])
      else
        let u = weather_url L weatherAPIKey city in
        case http_Get E u of
          Inl cause \<Rightarrow> (Inl (url_error L ''Get'' u cause), [u])
        | Inr resp \<Rightarrow>
            if StatusCode resp \<noteq> 200 then
              (Inl (''weather API returned status '' @ dec (StatusCode resp) @ '': ''
                      @ body_data resp), [u])
            else case body_err resp of
              Some e \<Rightarrow> (Inl e, [u])
            | None \<Rightarrow>
                (case unmarshal L (decode_WeatherAPIResponse L) (body_data resp) of
                   Inl e \<Rightarrow> (Inl e, [u])
                 | Inr weatherResp \<Rightarrow> (Inr (Current_TempC weatherResp), [u])))"

definition TemperatureResponse_json :: "'n TemperatureResponse \<Rightarrow> 'n json" where
  "TemperatureResponse_json r =
     JObj [(''city'', JStr (City_b r)), (''temp_C'', JNum (TempC_b r)),
           (''temp_F'', JNum (TempF_b r)), (''temp_K'', JNum (TempK_b r))]"

text \<open>
  \<open>json.NewEncoder(w).Encode(response)\<close>: the text of the object and a newline, or
  nothing at all when a number is one the encoder refuses. The handlers drop the error.
\<close>

definition Encode_TemperatureResponse :: "'n lib \<Rightarrow> 'n TemperatureResponse \<Rightarrow> string" where
  "Encode_TemperatureResponse L r =
     (if unsupported L (TempC_b r) \<or> unsupported L (TempF_b r) \<or> unsupported L (TempK_b r)
      then []
      else render L (TemperatureResponse_json r) @ nl)"

definition handleTemperature ::
  "'n lib \<Rightarrow> env_b \<Rightarrow> (string \<times> string) list \<Rightarrow> response \<times> string list" where
  "handleTemperature L E hdr =
     (let cep = header_Get hdr ''X-CEP'' in
      if cep = [] then (write_error_json L 400 ''CEP header is required'', [])
      else if \<not> validateCEP_b cep then (write_error_json L 422 ''invalid zipcode'', [])
      else case searchCEP L E cep of
        (Inl err, calls) \<Rightarrow>
          if err = ''invalid zipcode'' then (write_error_json L 422 ''invalid zipcode'', calls)
          else if err = ''can not find zipcode'' then
            (write_error_json L 404 ''can not find zipcode'', calls)
          else (http_Error err 500, calls)
      | (Inr viaCEPResp, calls) \<Rightarrow>
          (case getTemperature L E (Localidade viaCEPResp) of
             (Inl err, calls') \<Rightarrow> (http_Error err 500, calls @ calls')
           | (Inr tempC, calls') \<Rightarrow>
               let tempF = celsiusToFahrenheit L tempC;
                   tempK = celsiusToKelvin L tempC;
                   response = \<lparr>City_b = Localidade viaCEPResp, TempC_b = tempC,
                               TempF_b = tempF, TempK_b = tempK\<rparr>
               in (\<lparr>status = 200, content_type = Some ''application/json'',
                    body = Encode_TemperatureResponse L response\<rparr>, calls @ calls')))"

section \<open>The Gateway (servico-a)\<close>

record CEPRequest =
  CEP :: string

record 'n CEPResponse =
  City :: string
  TempC :: 'n
  TempF :: 'n
  TempK :: 'n

record out_request =
  Method :: string
  URL :: string
  Header :: "(string \<times> string) list"

record env_a =
  getenv_a :: "string \<Rightarrow> string"  \<comment> \<open>\<open>os.Getenv\<close>\<close>
  new_request_err :: "string \<Rightarrow> string option"  \<comment> \<open>the error of \<open>http.NewRequestWithContext\<close> for a URL, if any\<close>
  client_Do :: "out_request \<Rightarrow> string + http_response"  \<comment> \<open>\<open>client.Do\<close>; \<open>Inl\<close> the cause of a transport failure\<close>

definition CEPRequest_set :: "'n lib \<Rightarrow> string \<Rightarrow> 'n json \<Rightarrow> CEPRequest \<Rightarrow> string + CEPRequest" where
  "CEPRequest_set L k v s =
     (case field_for L [''cep''] k of
        None \<Rightarrow> Inr s
      | Some f \<Rightarrow> map_sum id (\<lambda>x. s\<lparr>CEP := x\<rparr>) (dec_string ''CEPRequest.cep'' v (CEP s)))"

definition decode_CEPRequest :: "'n lib \<Rightarrow> 'n json \<Rightarrow> string + CEPRequest" where
  "decode_CEPRequest L = decode_struct ''main.CEPRequest'' (CEPRequest_set L) \<lparr>CEP = []\<rparr>"

definition CEPResponse_set ::
  "'n lib \<Rightarrow> string \<Rightarrow> 'n json \<Rightarrow> 'n CEPResponse \<Rightarrow> string + 'n CEPResponse" where
  "CEPResponse_set L k v s =
     (case field_for L [''city'', ''temp_C'', ''temp_F'', ''temp_K''] k of
        None \<Rightarrow> Inr s
      | Some f \<Rightarrow>
          if f = ''city'' then
            map_sum id (\<lambda>x. s\<lparr>City := x\<rparr>) (dec_string ''CEPResponse.city'' v (City s))
          else if f = ''temp_C'' then
            map_sum id (\<lambda>x. s\<lparr>TempC := x\<rparr>) (dec_float64 ''CEPResponse.temp_C'' v (TempC s))
          else if f = ''temp_F'' then
            map_sum id (\<lambda>x. s\<lparr>TempF := x\<rparr>) (dec_float64 ''CEPResponse.temp_F'' v (TempF s))
          else
            map_sum id (\<lambda>x. s\<lparr>TempK := x\<rparr>) (dec_float64 ''CEPResponse.temp_K'' v (TempK s)))"

definition decode_CEPResponse :: "'n lib \<Rightarrow> 'n json \<Rightarrow> string + 'n CEPResponse" where
  "decode_CEPResponse L =
     decode_struct ''main.CEPResponse'' (CEPResponse_set L)
       \<lparr>City = [], TempC = fzero L, TempF = fzero L, TempK = fzero L\<rparr>"

definition CEPResponse_json :: "'n CEPResponse \<Rightarrow> 'n json" where
  "CEPResponse_json r =
     JObj [(''city'', JStr (City r)), (''temp_C'', JNum (TempC r)),
           (''temp_F'', JNum (TempF r)), (''temp_K'', JNum (TempK r))]"

definition Encode_CEPResponse :: "'n lib \<Rightarrow> 'n CEPResponse \<Rightarrow> string" where
  "Encode_CEPResponse L r =
     (if unsupported L (TempC r) \<or> unsupported L (TempF r) \<or> unsupported L (TempK r)
      then []
      else render L (CEPResponse_json r) @ nl)"

text \<open>
  The URL of the Resolver's endpoint (\<open>servicoBURL + "/temperature"\<close>, with the default
  for an unset \<open>SERVICO_B_URL\<close>) and the request that \<open>handleCEP\<close> builds for a code.
  The trace headers that the propagator injects are not part of the model.
\<close>

definition temperature_url :: "env_a \<Rightarrow> string" where
  "temperature_url E =
     (let servicoBURL =
            (if getenv_a E ''SERVICO_B_URL'' = [] then ''http://servico-b:8081''
             else getenv_a E ''SERVICO_B_URL'')
      in servicoBURL @ ''/temperature'')"

definition temperature_request :: "env_a \<Rightarrow> string \<Rightarrow> out_request" where
  "temperature_request E cep =
     \<lparr>Method = ''POST'', URL = temperature_url E,
      Header = [(''Content-Type'', ''application/json''), (''X-CEP'', cep)]\<rparr>"

text \<open>
  \<open>handleCEP\<close>. The request is given by what \<open>json.NewDecoder(r.Body)\<close> reads from its
  body: a syntax or read error, or a document. The handler returns its response and the
  requests it has sent to the Resolver.
\<close>

definition handleCEP ::
  "'n lib \<Rightarrow> env_a \<Rightarrow> string + 'n json \<Rightarrow> response \<times> out_request list" where
  "handleCEP L E reqBody =
     (case (case reqBody of Inl e \<Rightarrow> Inl e | Inr j \<Rightarrow> decode_CEPRequest L j) of
        Inl err \<Rightarrow> (http_Error ''invalid request body'' 400, [])
      | Inr req \<Rightarrow>
          if \<not> validateCEP (CEP req) then (write_error_json L 422 ''invalid zipcode'', [])
          else
            case new_request_err E (temperature_url E) of
              Some err \<Rightarrow> (http_Error err 500, [])
            | None \<Rightarrow>
                let httpReq = temperature_request E (CEP req)
                in case client_Do E httpReq of
                  Inl cause \<Rightarrow>
                    (http_Error (url_error L ''Post'' (temperature_url E) cause) 500, [httpReq])
                | Inr resp \<Rightarrow>
                    (case body_err resp of
                       Some err \<Rightarrow> (http_Error err 500, [httpReq])
                     | None \<Rightarrow>
                         if StatusCode resp \<noteq> 200 then
                           (\<lparr>status = StatusCode resp,
                             content_type = Some ''application/json'',
                             body = body_data resp\<rparr>, [httpReq])
                         else
                           (case unmarshal L (decode_CEPResponse L) (body_data resp) of
                              Inl err \<Rightarrow>
                                (http_Error (''failed to decode response: '' @ err) 500,
                                 [httpReq])
                            | Inr cepResp \<Rightarrow>
                                (\<lparr>status = 200, content_type = Some ''application/json'',
                                  body = Encode_CEPResponse L cepResp\<rparr>, [httpReq]))))"

section \<open>The tracing bootstrap\<close>

text \<open>
  Time is counted in milliseconds. What a dial would do if nothing stopped it: connect
  after some time, or fail with an error after some time. \<open>grpc.DialContext\<close> runs with
  \<open>grpc.WithBlock()\<close> under a context that expires after the timeout: an attempt that has
  not ended by then fails at the deadline.
\<close>

datatype dial = Connects nat | Fails string nat

definition maxRetries :: nat where
  "maxRetries = 20"

definition retryDelay :: nat where
  "retryDelay = 2000"

definition dialTimeout :: nat where
  "dialTimeout = 5000"

fun DialContext :: "nat \<Rightarrow> dial \<Rightarrow> string option \<times> nat" where
  "DialContext t (Connects d) =
     (if d < t then (None, d) else (Some ''context deadline exceeded'', t))"
| "DialContext t (Fails e d) =
     (if d < t then (Some e, d) else (Some ''context deadline exceeded'', t))"

record trace =
  attempts :: nat  \<comment> \<open>calls of \<open>grpc.DialContext\<close>\<close>
  sleeps :: nat  \<comment> \<open>calls of \<open>time.Sleep(retryDelay)\<close>\<close>
  elapsed :: nat  \<comment> \<open>time spent dialling and sleeping\<close>

definition trace0 :: trace where
  "trace0 = \<lparr>attempts = 0, sleeps = 0, elapsed = 0\<rparr>"

text \<open>A call of \<open>grpc.DialContext\<close> that took \<open>d\<close>, and a call of \<open>time.Sleep(retryDelay)\<close>.\<close>

definition attempted :: "trace \<Rightarrow> nat \<Rightarrow> trace" where
  "attempted t d = t\<lparr>attempts := attempts t + 1, elapsed := elapsed t + d\<rparr>"

definition slept :: "trace \<Rightarrow> trace" where
  "slept t = t\<lparr>sleeps := sleeps t + 1, elapsed := elapsed t + retryDelay\<rparr>"

text \<open>The error returned when the last attempt has failed with the error \<open>e\<close>.\<close>

definition giveup_error :: "string \<Rightarrow> string" where
  "giveup_error e =
     ''failed to create gRPC connection to collector after '' @ dec maxRetries
       @ '' attempts: '' @ e"

text \<open>
  The loop \<open>for i := 0; i < maxRetries; i++\<close>, from index \<open>i\<close>: \<open>Inr (Some i)\<close> is the
  connection made at index \<open>i\<close> (the \<open>break\<close>), \<open>Inl\<close> the error returned from inside the
  loop, \<open>Inr None\<close> the loop running out with \<open>conn\<close> still nil.
\<close>

function connect_loop :: "(nat \<Rightarrow> dial) \<Rightarrow> nat \<Rightarrow> trace \<Rightarrow> (string + nat option) \<times> trace" where
  "connect_loop dials i t =
     (if i < maxRetries then
        let (err, d) = DialContext dialTimeout (dials i);
            t1 = attempted t d
        in case err of
          None \<Rightarrow> (Inr (Some i), t1)
        | Some e \<Rightarrow>
            if i < maxRetries - 1 then connect_loop dials (i + 1) (slept t1)
            else (Inl (giveup_error e), t1)
      else (Inr None, t))"
  by pat_completeness auto
termination
  by (relation "measure (\<lambda>(dials, i, t). maxRetries - i)") auto

declare connect_loop.simps [simp del]

text \<open>
  \<open>initProvider\<close>: the resource, the loop, the exporter. The errors of \<open>resource.New\<close> and
  of \<open>otlptracegrpc.New\<close>, if any, are given.
\<close>

definition initProvider ::
  "string option \<Rightarrow> (nat \<Rightarrow> dial) \<Rightarrow> string option \<Rightarrow> (string + unit) \<times> trace" where
  "initProvider resource_err dials exporter_err =
     (case resource_err of
        Some e \<Rightarrow> (Inl (''failed to create resource: '' @ e), trace0)
      | None \<Rightarrow>
          (case connect_loop dials 0 trace0 of
             (Inl e, t) \<Rightarrow> (Inl e, t)
           | (Inr conn, t) \<Rightarrow>
               (case exporter_err of
                  Some e \<Rightarrow> (Inl (''failed to create trace exporter: '' @ e), t)
                | None \<Rightarrow> (Inr (), t))))"

text \<open>
  \<open>main\<close>, up to the start of the server: an error of \<open>initProvider\<close> is logged, the
  shutdown function becomes a no-op, and the server is started all the same.
\<close>

record startup =
  tracing :: bool
  serving :: bool
  warnings :: "string list"

definition main_startup :: "string + unit \<Rightarrow> startup" where
  "main_startup r =
     (case r of
        Inl err \<Rightarrow>
          \<lparr>tracing = False, serving = True,
           warnings = [''Warning: Failed to initialize OTEL provider: '' @ err
                        @ ''. Continuing without tracing.'']\<rparr>
      | Inr _ \<Rightarrow> \<lparr>tracing = True, serving = True, warnings = []\<rparr>)"

text \<open>Whether the attempt at index \<open>i\<close> fails, and the time it takes.\<close>

definition attempt_fails :: "(nat \<Rightarrow> dial) \<Rightarrow> nat \<Rightarrow> bool" where
  "attempt_fails dials i = (fst (DialContext dialTimeout (dials i)) \<noteq> None)"

definition attempt_time :: "(nat \<Rightarrow> dial) \<Rightarrow> nat \<Rightarrow> nat" where
  "attempt_time dials i = snd (DialContext dialTimeout (dials i))"

text \<open>
  Three collectors: one that would accept a connection only after a minute, one that
  refuses every dial at once, one that is up from the third attempt on.
\<close>

definition collector_late :: "nat \<Rightarrow> dial" where
  "collector_late i = Connects 60000"

definition collector_refusing :: "nat \<Rightarrow> dial" where
  "collector_refusing i = Fails ''connection refused'' 0"

definition collector_up_at_third :: "nat \<Rightarrow> dial" where
  "collector_up_at_third i = (if i < 2 then Connects 60000 else Connects 120)"

section \<open>The arithmetic of \<open>float64\<close>\<close>

text \<open>
  A \<open>float64\<close> is an IEEE 754 binary64 value: a finite value is the rational number it
  denotes, and there are the two infinities and NaN. The sign of zero is not kept. Every
  operation computes the exact result and rounds it to the nearest \<open>float64\<close>, ties to
  the even significand; Go evaluates \<open>c*1.8 + 32\<close> as a rounded product followed by a
  rounded sum wherever it does not fuse the two.
\<close>

datatype float64 = Finite rat | PosInf | NegInf | NaN

definition pow2 :: "int \<Rightarrow> rat" where
  "pow2 e = (if 0 \<le> e then 2 ^ nat e else 1 / 2 ^ nat (- e))"

text \<open>The number of binary digits of a positive integer.\<close>

function bitlen :: "int \<Rightarrow> int" where
  "bitlen n = (if n \<le> 0 then 0 else 1 + bitlen (n div 2))"
  by pat_completeness auto
termination
  by (relation "measure nat") auto

declare bitlen.simps [simp del]

text \<open>The exponent of a positive rational \<open>a\<close>: the \<open>e\<close> with \<open>2 ^ e \<le> a < 2 ^ (e + 1)\<close>.\<close>

definition ilog2 :: "rat \<Rightarrow> int" where
  "ilog2 a =
     (let (p, q) = quotient_of a;
          e0 = bitlen p - bitlen q
      in if pow2 e0 \<le> a then e0 else e0 - 1)"

definition round_half_even :: "rat \<Rightarrow> int" where
  "round_half_even m =
     (let f = \<lfloor>m\<rfloor>; r = m - of_int f
      in if r < 1 / 2 then f
         else if 1 / 2 < r then f + 1
         else if even f then f else f + 1)"

text \<open>
  Rounding to the nearest \<open>float64\<close>: 53 significant bits, the exponent not below that
  of the subnormal numbers (\<open>- 1022\<close>), and an infinity from \<open>2 ^ 1024\<close> on.
\<close>

definition round64 :: "rat \<Rightarrow> float64" where
  "round64 q =
     (if q = 0 then Finite 0
      else
        let a = \<bar>q\<bar>;
            e = max (ilog2 a) (- 1022);
            ulp = pow2 (e - 52);
            r = of_int (round_half_even (a / ulp)) * ulp
        in if pow2 1024 \<le> r then (if 0 < q then PosInf else NegInf)
           else Finite (if 0 < q then r else - r))"

fun is_finite :: "float64 \<Rightarrow> bool" where
  "is_finite (Finite a) = True"
| "is_finite x = False"

fun fmul64 :: "float64 \<Rightarrow> float64 \<Rightarrow> float64" where
  "fmul64 NaN y = NaN"
| "fmul64 x NaN = NaN"
| "fmul64 (Finite a) (Finite b) = round64 (a * b)"
| "fmul64 (Finite a) PosInf = (if a = 0 then NaN else if 0 < a then PosInf else NegInf)"
| "fmul64 (Finite a) NegInf = (if a = 0 then NaN else if 0 < a then NegInf else PosInf)"
| "fmul64 PosInf (Finite b) = (if b = 0 then NaN else if 0 < b then PosInf else NegInf)"
| "fmul64 NegInf (Finite b) = (if b = 0 then NaN else if 0 < b then NegInf else PosInf)"
| "fmul64 PosInf PosInf = PosInf"
| "fmul64 PosInf NegInf = NegInf"
| "fmul64 NegInf PosInf = NegInf"
| "fmul64 NegInf NegInf = PosInf"

fun fadd64 :: "float64 \<Rightarrow> float64 \<Rightarrow> float64" where
  "fadd64 NaN y = NaN"
| "fadd64 x NaN = NaN"
| "fadd64 (Finite a) (Finite b) = round64 (a + b)"
| "fadd64 (Finite a) y = y"
| "fadd64 x (Finite b) = x"
| "fadd64 PosInf PosInf = PosInf"
| "fadd64 NegInf NegInf = NegInf"
| "fadd64 PosInf NegInf = NaN"
| "fadd64 NegInf PosInf = NaN"

text \<open>
  A library with the arithmetic of \<open>float64\<close>: the constants \<open>1.8\<close>, \<open>32\<close> and \<open>273\<close>
  are converted to the nearest \<open>float64\<close>, and the encoder of \<open>encoding/json\<close> refuses the
  values that are not finite.
\<close>

definition ieee :: "float64 lib \<Rightarrow> float64 lib" where
  "ieee L =
     L\<lparr>fmul := fmul64, fadd := fadd64, fzero := Finite 0, lit_1_8 := round64 (9 / 5),
       lit_32 := round64 32, lit_273 := round64 273,
       unsupported := (\<lambda>x. \<not> is_finite x)\<rparr>"

section \<open>A sample library and sample upstreams\<close>

text \<open>
  A concrete instance of the library, on which the properties below are exercised: the
  numbers are rationals with exact arithmetic, and the text form of JSON is given for a
  handful of documents.
\<close>

definition sample_texts :: "(string \<times> rat json) list" where
  \<open>sample_texts =
     [(''{"error":"CEP header is required"}'', error_doc ''CEP header is required''),
      (''{"error":"invalid zipcode"}'', error_doc ''invalid zipcode''),
      (''{"error":"can not find zipcode"}'', error_doc ''can not find zipcode''),
      (''{"erro":true}'', JObj [(''erro'', JBool True)]),
      (''{"erro":"true"}'', JObj [(''erro'', JStr ''true'')]),
      (''{"cep":"80010-000","localidade":"Curitiba","uf":"PR"}'',
         JObj [(''cep'', JStr ''80010-000''), (''localidade'', JStr ''Curitiba''),
               (''uf'', JStr ''PR'')]),
      (''{"location":{"name":"Curitiba"},"current":{"temp_c":25}}'',
         JObj [(''location'', JObj [(''name'', JStr ''Curitiba'')]),
               (''current'', JObj [(''temp_c'', JNum 25)])]),
      (''{"city":"Curitiba","temp_C":25,"temp_F":77,"temp_K":298}'',
         JObj [(''city'', JStr ''Curitiba''), (''temp_C'', JNum 25), (''temp_F'', JNum 77),
               (''temp_K'', JNum 298)])]\<close>

definition sample_render :: "rat json \<Rightarrow> string" where
  "sample_render j =
     (case find (\<lambda>(t, d). d = j) sample_texts of Some (t, d) \<Rightarrow> t | None \<Rightarrow> ''null'')"

definition sample_parse :: "string \<Rightarrow> string + rat json" where
  "sample_parse s =
     (case find (\<lambda>(t, d). t @ nl = s \<or> t = s) sample_texts of
        Some (t, d) \<Rightarrow> Inr d
      | None \<Rightarrow> Inl ''unexpected end of JSON input'')"

definition ascii_lower :: "char \<Rightarrow> char" where
  "ascii_lower c =
     (if 65 \<le> (of_char c :: nat) \<and> (of_char c :: nat) \<le> 90 then char_of (of_char c + (32 :: nat))
      else c)"

definition sample_lib :: "rat lib" where
  "sample_lib =
     \<lparr>fmul = (*), fadd = (+), fzero = 0, lit_1_8 = 9 / 5, lit_32 = 32, lit_273 = 273,
      unsupported = (\<lambda>x. False), render = sample_render, parse = sample_parse,
      equal_fold = (\<lambda>a b. map ascii_lower a = map ascii_lower b),
      quote = (\<lambda>u. dquote @ u @ dquote), query_escape = (\<lambda>c. c)\<rparr>"

text \<open>An upstream reply with the given status and body, read without error.\<close>

definition reply :: "nat \<Rightarrow> string \<Rightarrow> string + http_response" where
  "reply code text = Inr \<lparr>StatusCode = code, body_data = text, body_err = None\<rparr>"

text \<open>
  The world of the Resolver. The directory knows the code \<open>80010000\<close> (Curitiba,
  25 degrees); it answers 400 to \<open>00000000\<close>, sets its error flag for \<open>99999999\<close>, cannot be
  reached for \<open>11111111\<close>, breaks off while the body of \<open>22222222\<close> is read, sends text
  that is not JSON for \<open>33333333\<close> and a flag of the wrong type for \<open>44444444\<close>.
\<close>

definition sample_Get :: "string \<Rightarrow> string + http_response" where
  \<open>sample_Get u =
     (if u = directory_url ''80010000'' then
        reply 200 ''{"cep":"80010-000","localidade":"Curitiba","uf":"PR"}''
      else if u = directory_url ''00000000'' then reply 400 ''<h1>Bad Request</h1>''
      else if u = directory_url ''99999999'' then reply 200 ''{"erro":true}''
      else if u = directory_url ''11111111'' then Inl ''dial tcp: connection refused''
      else if u = directory_url ''22222222'' then
        Inr \<lparr>StatusCode = 200, body_data = ''{"cep'', body_err = Some ''unexpected EOF''\<rparr>
      else if u = directory_url ''33333333'' then reply 200 ''<html>''
      else if u = directory_url ''44444444'' then reply 200 ''{"erro":"true"}''
      else if u = weather_url sample_lib ''secret'' ''Curitiba'' then
        reply 200 ''{"location":{"name":"Curitiba"},"current":{"temp_c":25}}''
      else Inl ''no such host'')\<close>

definition sample_env_b :: env_b where
  "sample_env_b =
     \<lparr>getenv_b = (\<lambda>k. if k = ''WEATHER_API_KEY'' then ''secret'' else []),
      http_Get = sample_Get\<rparr>"

definition sample_env_b_nokey :: env_b where
  "sample_env_b_nokey = \<lparr>getenv_b = (\<lambda>k. []), http_Get = sample_Get\<rparr>"

text \<open>
  Worlds for the Gateway: no variable is set, every URL is accepted, and the Resolver
  answers every request with the given reply.
\<close>

definition sample_env_a :: "string + http_response \<Rightarrow> env_a" where
  "sample_env_a r =
     \<lparr>getenv_a = (\<lambda>k. []), new_request_err = (\<lambda>u. None), client_Do = (\<lambda>q. r)\<rparr>"

text \<open>The Gateway in front of the Resolver: the request's headers are what the Resolver is given.\<close>

definition resolver_reply :: "'n lib \<Rightarrow> env_b \<Rightarrow> out_request \<Rightarrow> string + http_response" where
  "resolver_reply L E q =
     (let r = fst (handleTemperature L E (Header q))
      in Inr \<lparr>StatusCode = status r, body_data = body r, body_err = None\<rparr>)"

definition cep_request :: "string \<Rightarrow> string + rat json" where
  "cep_request c = Inr (JObj [(''cep'', JStr c)])"

text \<open>
  The same with the arithmetic of \<open>float64\<close>, and a weather service that reports
  \<open>1.348269851146737e308\<close> degrees for Curitiba, the \<open>float64\<close> value \<open>3 * 2 ^ 1022\<close>.
\<close>

definition temp_hot :: float64 where
  "temp_hot = Finite (3 * 2 ^ 1022)"

definition sample_texts64 :: "(string \<times> float64 json) list" where
  \<open>sample_texts64 =
     [(''{"cep":"80010-000","localidade":"Curitiba","uf":"PR"}'',
         JObj [(''cep'', JStr ''80010-000''), (''localidade'', JStr ''Curitiba''),
               (''uf'', JStr ''PR'')]),
      (''{"location":{"name":"Curitiba"},"current":{"temp_c":1.348269851146737e308}}'',
         JObj [(''location'', JObj [(''name'', JStr ''Curitiba'')]),
               (''current'', JObj [(''temp_c'', JNum temp_hot)])])]\<close>

definition sample_parse64 :: "string \<Rightarrow> string + float64 json" where
  "sample_parse64 s =
     (case find (\<lambda>(t, d). t @ nl = s \<or> t = s) sample_texts64 of
        Some (t, d) \<Rightarrow> Inr d
      | None \<Rightarrow> Inl ''unexpected end of JSON input'')"

definition sample_lib64 :: "float64 lib" where
  "sample_lib64 =
     ieee \<lparr>fmul = fmul64, fadd = fadd64, fzero = Finite 0, lit_1_8 = round64 (9 / 5),
            lit_32 = round64 32, lit_273 = round64 273,
            unsupported = (\<lambda>x. \<not> is_finite x),
            render = (\<lambda>j. ''null''), parse = sample_parse64,
            equal_fold = (\<lambda>a b. map ascii_lower a = map ascii_lower b),
            quote = (\<lambda>u. dquote @ u @ dquote), query_escape = (\<lambda>c. c)\<rparr>"

definition sample_Get_hot :: "string \<Rightarrow> string + http_response" where
  \<open>sample_Get_hot u =
     (if u = directory_url ''80010000'' then
        reply 200 ''{"cep":"80010-000","localidade":"Curitiba","uf":"PR"}''
      else if u = weather_url sample_lib64 ''secret'' ''Curitiba'' then
        reply 200 ''{"location":{"name":"Curitiba"},"current":{"temp_c":1.348269851146737e308}}''
      else Inl ''no such host'')\<close>

definition sample_env_b_hot :: env_b where
  "sample_env_b_hot =
     \<lparr>getenv_b = (\<lambda>k. if k = ''WEATHER_API_KEY'' then ''secret'' else []),
      http_Get = sample_Get_hot\<rparr>"


section \<open>Properties of the validator\<close>

lemma lead_info_cases:
  "lead_info b0 = Some (sz, lo, hi) \<Longrightarrow>
     (sz = 2 \<and> 194 \<le> b0 \<and> b0 \<le> 223)
     \<or> (sz = 3 \<and> b0 = 224 \<and> lo = 160 \<and> hi = 191)
     \<or> (sz = 3 \<and> 225 \<le> b0 \<and> b0 \<le> 239)
     \<or> (sz = 4 \<and> b0 = 240 \<and> lo = 144 \<and> hi = 191)
     \<or> (sz = 4 \<and> 241 \<le> b0 \<and> b0 \<le> 244)"
  by (auto simp: lead_info_def split: if_splits)

lemma mod_window:
  fixes b m q :: nat
  assumes "q * m \<le> b" "b < q * m + m"
  shows "b mod m = b - q * m"
proof -
  have "b = (b - q * m) + q * m" using assms by simp
  then have "b mod m = ((b - q * m) + q * m) mod m" by simp
  also have "\<dots> = (b - q * m) mod m" by (rule mod_mult_self1)
  also have "\<dots> = b - q * m" using assms by (intro mod_less) linarith
  finally show ?thesis .
qed

lemma rune2_high: "194 \<le> b0 \<Longrightarrow> b0 \<le> 223 \<Longrightarrow> 57 < rune2 b0 b1"
proof -
  assume a: "194 \<le> b0" "b0 \<le> 223"
  have "b0 mod 32 = b0 - 6 * 32" using a by (intro mod_window) simp_all
  then have "2 \<le> b0 mod 32" using a by simp
  then show ?thesis unfolding rune2_def by linarith
qed

lemma rune3_high_e0: "\<not> b1 < 160 \<Longrightarrow> \<not> 191 < b1 \<Longrightarrow> 57 < rune3 b0 b1 b2"
proof -
  assume a: "\<not> b1 < 160" "\<not> 191 < b1"
  have "b1 mod 64 = b1 - 2 * 64" using a by (intro mod_window) simp_all
  then have "32 \<le> b1 mod 64" using a by simp
  then show ?thesis unfolding rune3_def by linarith
qed

lemma rune3_high: "225 \<le> b0 \<Longrightarrow> b0 \<le> 239 \<Longrightarrow> 57 < rune3 b0 b1 b2"
proof -
  assume a: "225 \<le> b0" "b0 \<le> 239"
  have "b0 mod 16 = b0 - 14 * 16" using a by (intro mod_window) simp_all
  then have "1 \<le> b0 mod 16" using a by simp
  then show ?thesis unfolding rune3_def by linarith
qed

lemma rune4_high_f0: "\<not> b1 < 144 \<Longrightarrow> \<not> 191 < b1 \<Longrightarrow> 57 < rune4 b0 b1 b2 b3"
proof -
  assume a: "\<not> b1 < 144" "\<not> 191 < b1"
  have "b1 mod 64 = b1 - 2 * 64" using a by (intro mod_window) simp_all
  then have "16 \<le> b1 mod 64" using a by simp
  then show ?thesis unfolding rune4_def by linarith
qed

lemma rune4_high: "241 \<le> b0 \<Longrightarrow> b0 \<le> 244 \<Longrightarrow> 57 < rune4 b0 b1 b2 b3"
proof -
  assume a: "241 \<le> b0" "b0 \<le> 244"
  have "b0 mod 8 = b0 - 30 * 8" using a by (intro mod_window) simp_all
  then have "1 \<le> b0 mod 8" using a by simp
  then show ?thesis unfolding rune4_def by linarith
qed

lemma decode_rune_high:
  assumes "128 \<le> b0"
  shows "57 < fst (decode_rune (b0 # bs))"
proof (cases "lead_info b0")
  case None
  then show ?thesis using assms by (simp add: RuneError_def)
next
  case (Some t)
  obtain sz lo hi where t: "t = (sz, lo, hi)" by (cases t) auto
  have li: "lead_info b0 = Some (sz, lo, hi)" using Some t by simp
  from lead_info_cases [OF li] consider
      (two) "sz = 2" "194 \<le> b0" "b0 \<le> 223"
    | (three0) "sz = 3" "b0 = 224" "lo = 160" "hi = 191"
    | (three) "sz = 3" "225 \<le> b0" "b0 \<le> 239"
    | (four0) "sz = 4" "b0 = 240" "lo = 144" "hi = 191"
    | (four) "sz = 4" "241 \<le> b0" "b0 \<le> 244"
    by blast
  then show ?thesis
  proof cases
    case two
    with li assms show ?thesis
      by (simp add: RuneError_def Let_def rune2_high)
  next
    case three0
    with li show ?thesis
      by (simp add: RuneError_def Let_def rune3_high_e0)
  next
    case three
    with li assms show ?thesis
      by (simp add: RuneError_def Let_def rune3_high)
  next
    case four0
    with li show ?thesis
      by (simp add: RuneError_def Let_def rune4_high_f0)
  next
    case four
    with li assms show ?thesis
      by (simp add: RuneError_def Let_def rune4_high)
  qed
qed

lemma all_digits_loop_Nil: "all_digits_loop [] = True"
  by (simp add: all_digits_loop.simps)

lemma all_digits_loop_Cons:
  "all_digits_loop (b # bs) = (48 \<le> b \<and> b \<le> 57 \<and> all_digits_loop bs)"
proof (cases "b < 128")
  case True
  then show ?thesis
    by (subst all_digits_loop.simps) auto
next
  case False
  then have h: "57 < fst (decode_rune (b # bs))" by (intro decode_rune_high) simp
  obtain r w where rw: "decode_rune (b # bs) = (r, w)" by (cases "decode_rune (b # bs)") auto
  with h have "57 < r" by simp
  then have "all_digits_loop (b # bs) = False"
    using rw by (subst all_digits_loop.simps) (simp del: decode_rune.simps)
  then show ?thesis using False by simp
qed

lemma all_digits_loop_iff:
  "all_digits_loop (map of_char cs) = (\<forall>c \<in> set cs. is_digit c)"
  by (induction cs) (simp_all add: all_digits_loop_Nil all_digits_loop_Cons is_digit_def)

text \<open>
  C1. Each of the two validators returns true exactly when the string has length 8 and
  every one of its characters is a decimal digit \<open>'0'..'9'\<close>: a string of another length,
  or one with a character that is not a digit, is rejected as it stands, nothing being
  trimmed or stripped first.
\<close>

theorem validateCEP_iff:
  "(validateCEP cep \<longleftrightarrow> length cep = 8 \<and> (\<forall>c \<in> set cep. is_digit c))
   \<and> (validateCEP_b cep \<longleftrightarrow> length cep = 8 \<and> (\<forall>c \<in> set cep. is_digit c))"
  by (simp add: validateCEP_def validateCEP_b_def all_digits_loop_iff)

theorem validateCEP_iff_witness:
  "length ''01310100'' = 8 \<and> list_all is_digit ''01310100''
   \<and> validateCEP ''01310100'' \<and> validateCEP_b ''01310100''
   \<and> \<not> validateCEP ''123'' \<and> \<not> validateCEP_b '' 1310100''"
  using validateCEP_iff [of "''01310100''"] validateCEP_iff [of "''123''"]
    validateCEP_iff [of "'' 1310100''"]
  by (simp add: is_digit_def)

lemma validateCEP_short: "length c \<noteq> 8 \<Longrightarrow> \<not> validateCEP c"
  by (simp add: validateCEP_def)

lemma validateCEP_b_short: "length c \<noteq> 8 \<Longrightarrow> \<not> validateCEP_b c"
  by (simp add: validateCEP_b_def)

section \<open>Properties of the conversions\<close>

lemma bitlen_nonneg: "0 \<le> bitlen n"
proof (induction n rule: bitlen.induct)
  case (1 n)
  then show ?case by (subst bitlen.simps) auto
qed

lemma bitlen_bounds:
  "0 < n \<Longrightarrow> n < 2 ^ nat (bitlen n) \<and> 2 ^ nat (bitlen n) \<le> 2 * n"
proof (induction n rule: bitlen.induct)
  case (1 n)
  have b: "bitlen n = 1 + bitlen (n div 2)"
    using "1.prems" by (subst bitlen.simps) simp
  have nn: "nat (bitlen n) = Suc (nat (bitlen (n div 2)))"
    using b bitlen_nonneg [of "n div 2"] by simp
  show ?case
  proof (cases "n div 2 = 0")
    case True
    then have "n = 1" using "1.prems" by linarith
    moreover have "bitlen 0 = 0" by (subst bitlen.simps) simp
    ultimately show ?thesis using nn True by simp
  next
    case False
    then have pos: "0 < n div 2" using "1.prems" by linarith
    have ne: "\<not> n \<le> 0" using "1.prems" by simp
    from "1.IH" [OF ne pos]
    have ih: "n div 2 < 2 ^ nat (bitlen (n div 2))"
      "2 ^ nat (bitlen (n div 2)) \<le> 2 * (n div 2)" by simp_all
    have "n < 2 * (n div 2) + 2" by linarith
    moreover have "2 * (n div 2) \<le> n" by linarith
    ultimately show ?thesis using ih nn by simp
  qed
qed

lemma round_half_even_int: "round_half_even (of_int m) = m"
  by (simp add: round_half_even_def)

lemma bitlen_one: "bitlen 1 = 1"
proof -
  have "bitlen 0 = 0" by (subst bitlen.simps) simp
  then show ?thesis by (subst bitlen.simps) simp
qed

lemma pow2_ulp:
  assumes "0 < b" and "b \<le> 53"
  shows "pow2 (max (int (b - 1)) (- 1022) - 52) = 1 / 2 ^ (53 - b)"
proof (cases "b = 53")
  case True
  then show ?thesis by (simp add: pow2_def)
next
  case False
  with assms have lt: "b < 53" by simp
  have m: "max (int (b - 1)) (- 1022) - 52 = - int (53 - b)" using assms lt by simp
  have "0 < 53 - b" using lt by simp
  then show ?thesis unfolding m by (simp add: pow2_def)
qed

lemma round64_pos_int:
  assumes "0 < n" and "n < 2 ^ 53"
  shows "round64 (of_int n) = Finite (of_int n)"
proof -
  define b where "b = nat (bitlen n)"
  from bitlen_bounds [OF assms(1)] have lo: "2 ^ b \<le> 2 * n" and hi: "n < 2 ^ b"
    by (simp_all add: b_def)
  have bpos: "0 < b"
  proof (rule ccontr)
    assume "\<not> 0 < b"
    then have "b = 0" by simp
    with hi assms(1) show False by simp
  qed
  have b1: "bitlen n = int b" using bitlen_nonneg [of n] by (simp add: b_def)
  have lo': "(2::int) ^ (b - 1) \<le> n"
  proof -
    have "(2::int) ^ b = 2 * 2 ^ (b - 1)" using bpos by (cases b) simp_all
    with lo show ?thesis by simp
  qed
  have ble: "b \<le> 53"
  proof (rule ccontr)
    assume "\<not> b \<le> 53"
    then have "53 \<le> b - 1" by simp
    then have "(2::int) ^ 53 \<le> 2 ^ (b - 1)" by (intro power_increasing) simp_all
    with lo' assms(2) show False by simp
  qed
  have e0: "bitlen n - bitlen 1 = int (b - 1)" using b1 bitlen_one bpos by simp
  have p0: "pow2 (int (b - 1)) = 2 ^ (b - 1)" by (simp add: pow2_def)
  have le: "pow2 (int (b - 1)) \<le> of_int n"
  proof -
    have "(of_int ((2::int) ^ (b - 1)) :: rat) \<le> of_int n" using lo' by (simp only: of_int_le_iff)
    then show ?thesis unfolding p0 by simp
  qed
  have il: "ilog2 (of_int n) = int (b - 1)"
    unfolding ilog2_def using le by (simp add: e0)
  have q: "(of_int n :: rat) / (1 / 2 ^ (53 - b)) = of_int (n * 2 ^ (53 - b))" by simp
  have r: "(of_int (n * 2 ^ (53 - b)) :: rat) * (1 / 2 ^ (53 - b)) = of_int n" by simp
  have big: "\<not> pow2 1024 \<le> (of_int n :: rat)"
  proof -
    have "n < 2 ^ 1024" using assms(2) by (rule less_trans) simp
    then have "(of_int n :: rat) < of_int (2 ^ 1024)" by (simp only: of_int_less_iff)
    then show ?thesis by (simp add: pow2_def)
  qed
  have ne: "(of_int n :: rat) \<noteq> 0" "\<bar>of_int n :: rat\<bar> = of_int n" "(0::rat) < of_int n"
    using assms(1) by simp_all
  show ?thesis
    unfolding round64_def Let_def ne(2) il pow2_ulp [OF bpos ble] q round_half_even_int r
    using ne big by simp
qed

lemma round64_neg: "round64 (- q) = (case round64 q of Finite r \<Rightarrow> Finite (- r)
    | PosInf \<Rightarrow> NegInf | NegInf \<Rightarrow> PosInf | NaN \<Rightarrow> NaN)"
  by (cases "q = 0"; cases "0 < q") (auto simp: round64_def Let_def)

lemma round64_int:
  assumes "\<bar>n\<bar> < 2 ^ 53"
  shows "round64 (of_int n) = Finite (of_int n)"
proof -
  consider "n = 0" | "0 < n" | "n < 0" by linarith
  then show ?thesis
  proof cases
    case 1
    then show ?thesis by (simp add: round64_def)
  next
    case 2
    with assms show ?thesis by (intro round64_pos_int) simp_all
  next
    case 3
    then have "round64 (of_int (- n)) = Finite (of_int (- n))"
      using assms by (intro round64_pos_int) simp_all
    moreover have "round64 (of_int n) = round64 (- of_int (- n))" by simp
    ultimately show ?thesis by (simp only: round64_neg float64.case) simp
  qed
qed


lemma round64_1_8: "round64 (9 / 5) = Finite (8106479329266893 / 4503599627370496)"
  by code_simp

lemma round64_32: "round64 32 = Finite 32"
  using round64_int [of 32] by simp

lemma round64_273: "round64 273 = Finite 273"
  using round64_int [of 273] by simp

lemma ieee_simps:
  "fmul (ieee L) = fmul64" "fadd (ieee L) = fadd64" "fzero (ieee L) = Finite 0"
  "lit_1_8 (ieee L) = Finite (8106479329266893 / 4503599627370496)"
  "lit_32 (ieee L) = Finite 32" "lit_273 (ieee L) = Finite 273"
  "unsupported (ieee L) x = (\<not> is_finite x)"
  "render (ieee L) = render L" "parse (ieee L) = parse L" "equal_fold (ieee L) = equal_fold L"
  "quote (ieee L) = quote L" "query_escape (ieee L) = query_escape L"
  by (simp_all add: ieee_def round64_1_8 round64_32 round64_273)






section \<open>Properties of the Resolver\<close>

text \<open>
  C7. When the \<open>X-CEP\<close> header of a request to the Resolver is absent (its value is the
  empty string), the Resolver answers 400 with the JSON object
  \<open>{"error":"CEP header is required"}\<close>, whatever the validator would say and without any
  lookup. When the header is present and its value fails the Resolver's own validator, the
  Resolver answers 422 with the JSON object \<open>{"error":"invalid zipcode"}\<close>, again without
  any lookup: in both cases no URL has been fetched.
\<close>

theorem resolver_header_checks:
  "(header_Get hdr ''X-CEP'' = [] \<longrightarrow>
      handleTemperature L E hdr =
        (\<lparr>status = 400, content_type = None,
          body = render L (JObj [(''error'', JStr ''CEP header is required'')]) @ nl\<rparr>, []))
   \<and> (header_Get hdr ''X-CEP'' \<noteq> [] \<and> \<not> validateCEP_b (header_Get hdr ''X-CEP'') \<longrightarrow>
      handleTemperature L E hdr =
        (\<lparr>status = 422, content_type = None,
          body = render L (JObj [(''error'', JStr ''invalid zipcode'')]) @ nl\<rparr>, []))"
  by (simp add: handleTemperature_def write_error_json_def error_doc_def)

theorem resolver_header_checks_witness:
  "header_Get [] ''X-CEP'' = []
   \<and> header_Get [(''X-CEP'', ''123'')] ''X-CEP'' \<noteq> []
   \<and> \<not> validateCEP_b (header_Get [(''X-CEP'', ''123'')] ''X-CEP'')
   \<and> handleTemperature sample_lib sample_env_b [] =
        (\<lparr>status = 400, content_type = None,
          body = render sample_lib (JObj [(''error'', JStr ''CEP header is required'')]) @ nl\<rparr>, [])
   \<and> handleTemperature sample_lib sample_env_b [(''X-CEP'', ''123'')] =
        (\<lparr>status = 422, content_type = None,
          body = render sample_lib (JObj [(''error'', JStr ''invalid zipcode'')]) @ nl\<rparr>, [])"
  using resolver_header_checks [of "[]" sample_lib sample_env_b]
    resolver_header_checks [of "[(''X-CEP'', ''123'')]" sample_lib sample_env_b]
  by (simp add: header_Get_def validateCEP_b_short)

lemma searchCEP_calls: "snd (searchCEP L E cep) = [directory_url cep]"
  by (simp add: searchCEP_def Let_def split: sum.splits option.splits)

lemma validateCEP_b_80010000: "validateCEP_b ''80010000''"
  by (simp add: validateCEP_b_def all_digits_loop_Cons all_digits_loop_Nil)

lemma sample_directory_80010000:
  "searchCEP sample_lib sample_env_b_nokey ''80010000'' =
     (Inr (ViaCEPResponse_zero\<lparr>Cep := ''80010-000'', Localidade := ''Curitiba'', UF := ''PR''\<rparr>),
      [directory_url ''80010000''])"
  by (simp add: searchCEP_def sample_env_b_nokey_def sample_Get_def directory_url_def reply_def
      unmarshal_def sample_lib_def sample_parse_def sample_texts_def nl_def
      decode_ViaCEPResponse_def decode_struct_def ViaCEPResponse_set_def field_for_def
      ViaCEPResponse_fields_def ViaCEPResponse_zero_def error_doc_def)

lemma sample_nokey: "getenv_b sample_env_b_nokey k = []"
  by (simp add: sample_env_b_nokey_def)

text \<open>
  C6. When \<open>WEATHER_API_KEY\<close> is not set, a request that reaches the weather lookup
  (its code is valid and the directory lookup has succeeded) makes \<open>getTemperature\<close> fail
  without fetching any URL, and the Resolver answers 500: the only URL fetched for the
  request is that of the directory.
\<close>

theorem missing_key_fails_before_call:
  assumes "header_Get hdr ''X-CEP'' = cep" and "cep \<noteq> []" and "validateCEP_b cep"
    and "searchCEP L E cep = (Inr viaCEPResp, calls)"
    and "getenv_b E ''WEATHER_API_KEY'' = []"
  shows "getTemperature L E (Localidade viaCEPResp) = (Inl ''WEATHER_API_KEY not set'', [])
         \<and> handleTemperature L E hdr =
             (\<lparr>status = 500, content_type = Some ''text/plain; charset=utf-8'',
               body = ''WEATHER_API_KEY not set'' @ nl\<rparr>, [directory_url cep])"
proof -
  have c: "calls = [directory_url cep]"
    using searchCEP_calls [of L E cep] assms(4) by simp
  have g: "getTemperature L E (Localidade viaCEPResp) = (Inl ''WEATHER_API_KEY not set'', [])"
    using assms(5) by (simp add: getTemperature_def)
  show ?thesis
    using assms(1-4) g c by (simp add: handleTemperature_def http_Error_def)
qed

theorem missing_key_fails_before_call_witness:
  "handleTemperature sample_lib sample_env_b_nokey [(''X-CEP'', ''80010000'')] =
     (\<lparr>status = 500, content_type = Some ''text/plain; charset=utf-8'',
       body = ''WEATHER_API_KEY not set'' @ nl\<rparr>, [directory_url ''80010000''])"
  using missing_key_fails_before_call [of "[(''X-CEP'', ''80010000'')]" "''80010000''"
      sample_lib sample_env_b_nokey
      "ViaCEPResponse_zero\<lparr>Cep := ''80010-000'', Localidade := ''Curitiba'', UF := ''PR''\<rparr>"
      "[directory_url ''80010000'']"]
  by (simp add: header_Get_def validateCEP_b_80010000 sample_directory_80010000 sample_nokey)




















section \<open>Properties of the Gateway\<close>

lemma decode_CEPRequest_cep:
  "decode_CEPRequest L (JObj [(''cep'', JStr c)]) = Inr \<lparr>CEP = c\<rparr>"
  by (simp add: decode_CEPRequest_def decode_struct_def CEPRequest_set_def field_for_def)

text \<open>
  C4. When the body of a request to the Gateway decodes into a \<open>CEPRequest\<close> whose
  \<open>cep\<close> field fails the validator, the Gateway answers 422 with the JSON object
  \<open>{"error":"invalid zipcode"}\<close> and has sent no request to the Resolver.
\<close>

theorem gateway_rejects_invalid:
  assumes "decode_CEPRequest L j = Inr req" and "\<not> validateCEP (CEP req)"
  shows "handleCEP L E (Inr j) =
           (\<lparr>status = 422, content_type = None,
             body = render L (JObj [(''error'', JStr ''invalid zipcode'')]) @ nl\<rparr>, [])"
  using assms by (simp add: handleCEP_def write_error_json_def error_doc_def)

theorem gateway_rejects_invalid_witness:
  "decode_CEPRequest sample_lib (JObj [(''cep'', JStr ''123'')]) = Inr \<lparr>CEP = ''123''\<rparr>
   \<and> \<not> validateCEP (CEP \<lparr>CEP = ''123''\<rparr>)
   \<and> handleCEP sample_lib (sample_env_a (reply 200 [])) (Inr (JObj [(''cep'', JStr ''123'')])) =
        (\<lparr>status = 422, content_type = None,
          body = render sample_lib (JObj [(''error'', JStr ''invalid zipcode'')]) @ nl\<rparr>, [])"
  using gateway_rejects_invalid [of sample_lib "JObj [(''cep'', JStr ''123'')]" "\<lparr>CEP = ''123''\<rparr>"
      "sample_env_a (reply 200 [])"]
  by (simp add: decode_CEPRequest_cep validateCEP_short)


lemma validateCEP_80010000: "validateCEP ''80010000''"
  by (simp add: validateCEP_def all_digits_loop_Cons all_digits_loop_Nil)

text \<open>
  C5. When the Resolver answers a forwarded request with a status other than 200 and its
  body has been read, the Gateway answers with that same status and with the bytes of that
  body, unchanged.
\<close>

theorem gateway_relays_errors:
  assumes "decode_CEPRequest L j = Inr req" and "validateCEP (CEP req)"
    and "new_request_err E (temperature_url E) = None"
    and "client_Do E (temperature_request E (CEP req)) = Inr resp"
    and "body_err resp = None"
    and "StatusCode resp \<noteq> 200"
  shows "handleCEP L E (Inr j) =
           (\<lparr>status = StatusCode resp, content_type = Some ''application/json'',
             body = body_data resp\<rparr>, [temperature_request E (CEP req)])"
  using assms by (simp add: handleCEP_def)

theorem gateway_relays_errors_witness:
  "handleCEP sample_lib (sample_env_a (reply 404 ''{\"error\":\"can not find zipcode\"}''))
       (cep_request ''80010000'') =
     (\<lparr>status = 404, content_type = Some ''application/json'',
       body = ''{\"error\":\"can not find zipcode\"}''\<rparr>,
      [\<lparr>Method = ''POST'', URL = ''http://servico-b:8081/temperature'',
        Header = [(''Content-Type'', ''application/json''), (''X-CEP'', ''80010000'')]\<rparr>])"
  using gateway_relays_errors [of sample_lib "JObj [(''cep'', JStr ''80010000'')]"
      "\<lparr>CEP = ''80010000''\<rparr>" "sample_env_a (reply 404 ''{\"error\":\"can not find zipcode\"}'')"
      "\<lparr>StatusCode = 404, body_data = ''{\"error\":\"can not find zipcode\"}'', body_err = None\<rparr>"]
  by (simp add: decode_CEPRequest_cep validateCEP_80010000 sample_env_a_def reply_def
      cep_request_def temperature_request_def temperature_url_def)


lemma decode_CEPResponse_of_TemperatureResponse:
  "decode_CEPResponse L (TemperatureResponse_json r) =
     Inr \<lparr>City = City_b r, TempC = TempC_b r, TempF = TempF_b r, TempK = TempK_b r\<rparr>"
  by (simp add: decode_CEPResponse_def decode_struct_def TemperatureResponse_json_def
      CEPResponse_set_def field_for_def)

lemma Encode_CEPResponse_of_TemperatureResponse:
  "Encode_CEPResponse L \<lparr>City = City_b r, TempC = TempC_b r, TempF = TempF_b r, TempK = TempK_b r\<rparr>
     = Encode_TemperatureResponse L r"
  by (simp add: Encode_CEPResponse_def Encode_TemperatureResponse_def CEPResponse_json_def
      TemperatureResponse_json_def)

lemma handleTemperature_200:
  assumes "status (fst (handleTemperature L E hdr)) = 200"
  shows "\<exists>r. body (fst (handleTemperature L E hdr)) = Encode_TemperatureResponse L r"
  using assms
  by (auto simp: handleTemperature_def write_error_json_def http_Error_def Let_def
      split: if_splits prod.splits sum.splits)

lemma sample_Get_80010000:
  \<open>http_Get sample_env_b (directory_url ''80010000'') =
     reply 200 ''{"cep":"80010-000","localidade":"Curitiba","uf":"PR"}''\<close>
  \<open>http_Get sample_env_b (weather_url sample_lib ''secret'' ''Curitiba'') =
     reply 200 ''{"location":{"name":"Curitiba"},"current":{"temp_c":25}}''\<close>
  by (simp_all add: sample_env_b_def sample_Get_def directory_url_def weather_url_def)

lemma sample_parse_80010000:
  \<open>parse sample_lib ''{"cep":"80010-000","localidade":"Curitiba","uf":"PR"}'' =
     Inr (JObj [(''cep'', JStr ''80010-000''), (''localidade'', JStr ''Curitiba''),
                (''uf'', JStr ''PR'')])\<close>
  \<open>parse sample_lib ''{"location":{"name":"Curitiba"},"current":{"temp_c":25}}'' =
     Inr (JObj [(''location'', JObj [(''name'', JStr ''Curitiba'')]),
                (''current'', JObj [(''temp_c'', JNum 25)])])\<close>
  \<open>parse sample_lib (''{"city":"Curitiba","temp_C":25,"temp_F":77,"temp_K":298}'' @ nl) =
     Inr (JObj [(''city'', JStr ''Curitiba''), (''temp_C'', JNum 25), (''temp_F'', JNum 77),
                (''temp_K'', JNum 298)])\<close>
  by (simp_all add: sample_lib_def sample_parse_def sample_texts_def nl_def)

lemma sample_render_result:
  \<open>render sample_lib
      (JObj [(''city'', JStr ''Curitiba''), (''temp_C'', JNum 25), (''temp_F'', JNum 77),
             (''temp_K'', JNum 298)]) =
     ''{"city":"Curitiba","temp_C":25,"temp_F":77,"temp_K":298}''\<close>
  by (simp add: sample_lib_def sample_render_def sample_texts_def error_doc_def)

lemma sample_searchCEP_80010000:
  "searchCEP sample_lib sample_env_b ''80010000'' =
     (Inr (ViaCEPResponse_zero\<lparr>Cep := ''80010-000'', Localidade := ''Curitiba'', UF := ''PR''\<rparr>),
      [directory_url ''80010000''])"
  by (simp add: searchCEP_def sample_Get_80010000 reply_def unmarshal_def sample_parse_80010000
      decode_ViaCEPResponse_def decode_struct_def ViaCEPResponse_set_def field_for_def
      ViaCEPResponse_fields_def ViaCEPResponse_zero_def Let_def)

lemma sample_getTemperature_Curitiba:
  "getTemperature sample_lib sample_env_b ''Curitiba'' =
     (Inr 25, [weather_url sample_lib ''secret'' ''Curitiba''])"
proof -
  have k: "getenv_b sample_env_b ''WEATHER_API_KEY'' = ''secret''"
    by (simp add: sample_env_b_def)
  have d: "decode_WeatherAPIResponse sample_lib
             (JObj [(''location'', JObj [(''name'', JStr ''Curitiba'')]),
                    (''current'', JObj [(''temp_c'', JNum 25)])]) =
           Inr \<lparr>Location_Name = ''Curitiba'', Current_TempC = 25\<rparr>"
    by (simp add: decode_WeatherAPIResponse_def decode_struct_def WeatherAPIResponse_set_def
        field_for_def dec_nested_def Location_set_def Current_set_def)
  show ?thesis
    unfolding getTemperature_def k
    by (simp add: sample_Get_80010000 reply_def unmarshal_def sample_parse_80010000 d)
qed

lemma sample_handleTemperature_80010000:
  assumes "header_Get hdr ''X-CEP'' = ''80010000''"
  shows \<open>handleTemperature sample_lib sample_env_b hdr =
     (\<lparr>status = 200, content_type = Some ''application/json'',
       body = ''{"city":"Curitiba","temp_C":25,"temp_F":77,"temp_K":298}'' @ nl\<rparr>,
      [directory_url ''80010000'', weather_url sample_lib ''secret'' ''Curitiba''])\<close>
proof -
  have a: "celsiusToFahrenheit sample_lib 25 = 77" "celsiusToKelvin sample_lib 25 = 298"
    "\<And>x. \<not> unsupported sample_lib x"
    by (simp_all add: celsiusToFahrenheit_def celsiusToKelvin_def sample_lib_def)
  have l: "Localidade (ViaCEPResponse_zero\<lparr>Cep := ''80010-000'', Localidade := ''Curitiba'',
             UF := ''PR''\<rparr>) = ''Curitiba''"
    by simp
  show ?thesis
    unfolding handleTemperature_def assms
    by (simp add: validateCEP_b_80010000 sample_searchCEP_80010000 l
        sample_getTemperature_Curitiba a Encode_TemperatureResponse_def
        TemperatureResponse_json_def sample_render_result)
qed

lemma sample64_fields:
  "parse sample_lib64 = sample_parse64" "query_escape sample_lib64 c = c"
  "unsupported sample_lib64 x = (\<not> is_finite x)"
  "equal_fold sample_lib64 = (\<lambda>a b. map ascii_lower a = map ascii_lower b)"
  by (simp_all add: sample_lib64_def ieee_simps)

lemma sample_hot_Get:
  \<open>http_Get sample_env_b_hot (directory_url ''80010000'') =
     reply 200 ''{"cep":"80010-000","localidade":"Curitiba","uf":"PR"}''\<close>
  \<open>http_Get sample_env_b_hot (weather_url sample_lib64 ''secret'' ''Curitiba'') =
     reply 200 ''{"location":{"name":"Curitiba"},"current":{"temp_c":1.348269851146737e308}}''\<close>
  \<open>getenv_b sample_env_b_hot ''WEATHER_API_KEY'' = ''secret''\<close>
  by (simp_all add: sample_env_b_hot_def sample_Get_hot_def directory_url_def weather_url_def)

lemma sample_hot_parse:
  \<open>sample_parse64 ''{"cep":"80010-000","localidade":"Curitiba","uf":"PR"}'' =
     Inr (JObj [(''cep'', JStr ''80010-000''), (''localidade'', JStr ''Curitiba''),
                (''uf'', JStr ''PR'')])\<close>
  \<open>sample_parse64 ''{"location":{"name":"Curitiba"},"current":{"temp_c":1.348269851146737e308}}'' =
     Inr (JObj [(''location'', JObj [(''name'', JStr ''Curitiba'')]),
                (''current'', JObj [(''temp_c'', JNum (temp_hot))])])\<close>
  \<open>sample_parse64 [] = Inl ''unexpected end of JSON input''\<close>
  by (simp_all add: sample_parse64_def sample_texts64_def nl_def)

lemma sample_hot_searchCEP:
  "searchCEP sample_lib64 sample_env_b_hot ''80010000'' =
     (Inr (ViaCEPResponse_zero\<lparr>Cep := ''80010-000'', Localidade := ''Curitiba'', UF := ''PR''\<rparr>),
      [directory_url ''80010000''])"
  by (simp add: searchCEP_def sample_hot_Get reply_def unmarshal_def sample64_fields
      sample_hot_parse decode_ViaCEPResponse_def decode_struct_def ViaCEPResponse_set_def
      field_for_def ViaCEPResponse_fields_def ViaCEPResponse_zero_def Let_def)

lemma sample_hot_getTemperature:
  "getTemperature sample_lib64 sample_env_b_hot ''Curitiba'' =
     (Inr (temp_hot), [weather_url sample_lib64 ''secret'' ''Curitiba''])"
proof -
  have d: "decode_WeatherAPIResponse sample_lib64
             (JObj [(''location'', JObj [(''name'', JStr ''Curitiba'')]),
                    (''current'', JObj [(''temp_c'', JNum (temp_hot))])]) =
           Inr \<lparr>Location_Name = ''Curitiba'', Current_TempC = temp_hot\<rparr>"
    by (simp add: decode_WeatherAPIResponse_def decode_struct_def WeatherAPIResponse_set_def
        field_for_def dec_nested_def Location_set_def Current_set_def)
  show ?thesis
    unfolding getTemperature_def sample_hot_Get(3)
    by (simp add: sample_hot_Get reply_def unmarshal_def sample64_fields sample_hot_parse d)
qed

lemma sample_env_a_simps:
  "new_request_err (sample_env_a r) u = None" "getenv_a (sample_env_a r) k = []"
  by (simp_all add: sample_env_a_def)

lemma round_half_even_ge: "of_int k \<le> m \<Longrightarrow> k \<le> round_half_even m"
proof -
  assume "of_int k \<le> m"
  then have "k \<le> \<lfloor>m\<rfloor>" by (simp add: le_floor_iff)
  then show ?thesis by (auto simp: round_half_even_def Let_def)
qed

lemma round64_overflow_int:
  assumes "2 ^ 1024 \<le> n"
  shows "round64 (of_int n) = PosInf"
proof -
  have npos: "0 < n" using assms by (rule less_le_trans [rotated]) simp
  define b where "b = nat (bitlen n)"
  from bitlen_bounds [OF npos] have lo: "2 ^ b \<le> 2 * n" and hi: "n < 2 ^ b"
    by (simp_all add: b_def)
  have bgt: "1024 < b"
  proof (rule ccontr)
    assume "\<not> 1024 < b"
    then have "b \<le> 1024" by simp
    then have "(2::int) ^ b \<le> 2 ^ 1024" by (intro power_increasing) simp_all
    with hi assms show False by linarith
  qed
  then have bpos: "0 < b" by simp
  have b1: "bitlen n = int b" using bitlen_nonneg [of n] by (simp add: b_def)
  have lo': "(2::int) ^ (b - 1) \<le> n"
  proof -
    have "(2::int) ^ b = 2 * 2 ^ (b - 1)" using bpos by (cases b) simp_all
    with lo show ?thesis by simp
  qed
  have e0: "bitlen n - bitlen 1 = int (b - 1)" using b1 bitlen_one bpos by simp
  have p0: "pow2 (int (b - 1)) = 2 ^ (b - 1)" by (simp add: pow2_def)
  have le: "pow2 (int (b - 1)) \<le> of_int n"
  proof -
    have "(of_int ((2::int) ^ (b - 1)) :: rat) \<le> of_int n" using lo' by (simp only: of_int_le_iff)
    then show ?thesis unfolding p0 by simp
  qed
  have il: "ilog2 (of_int n) = int (b - 1)"
    unfolding ilog2_def using le by (simp add: e0)
  have m: "max (int (b - 1)) (- 1022) - 52 = int (b - 53)" using bgt by simp
  have ulp: "pow2 (max (int (b - 1)) (- 1022) - 52) = 2 ^ (b - 53)"
    unfolding m by (simp add: pow2_def)
  have sp: "(2::rat) ^ (b - 1) = 2 ^ 52 * 2 ^ (b - 53)"
  proof -
    have "b - 1 = 52 + (b - 53)" using bgt by simp
    then show ?thesis by (simp only: power_add)
  qed
  have "(of_int (2 ^ 52) :: rat) \<le> of_int n / 2 ^ (b - 53)"
  proof -
    have "(2::rat) ^ 52 * 2 ^ (b - 53) \<le> of_int n" using le unfolding p0 sp .
    then show ?thesis by (simp add: pos_le_divide_eq)
  qed
  then have k: "2 ^ 52 \<le> round_half_even (of_int n / 2 ^ (b - 53))"
    by (rule round_half_even_ge)
  have "(2::rat) ^ 52 * 2 ^ (b - 53) \<le> of_int (round_half_even (of_int n / 2 ^ (b - 53))) * 2 ^ (b - 53)"
  proof -
    have "(of_int (2 ^ 52) :: rat) \<le> of_int (round_half_even (of_int n / 2 ^ (b - 53)))"
      using k by (simp only: of_int_le_iff)
    then show ?thesis by (intro mult_right_mono) simp_all
  qed
  moreover have "(2::rat) ^ 1024 \<le> 2 ^ (b - 1)" using bgt by (intro power_increasing) simp_all
  ultimately have big: "pow2 1024 \<le> of_int (round_half_even (of_int n / 2 ^ (b - 53))) * 2 ^ (b - 53)"
    unfolding sp [symmetric] by (simp add: pow2_def)
  have ne: "(of_int n :: rat) \<noteq> 0" "\<bar>of_int n :: rat\<bar> = of_int n" "(0::rat) < of_int n"
    using npos by simp_all
  show ?thesis
    unfolding round64_def Let_def ne(2) il ulp
    using ne big by simp
qed

lemma sample_hot_overflow:
  "celsiusToFahrenheit sample_lib64 temp_hot = PosInf"
proof -
  have p: "(3 * 2 ^ 1022 :: rat) * (8106479329266893 / 4503599627370496) =
             of_int (24319437987800679 * 2 ^ 970)"
  proof -
    have "(2::rat) ^ 1022 = 2 ^ 970 * 2 ^ 52" by (simp only: power_add [symmetric]) simp
    moreover have "(2::rat) ^ 52 = 4503599627370496" by simp
    ultimately show ?thesis by simp
  qed
  have g: "(2::int) ^ 1024 \<le> 24319437987800679 * 2 ^ 970"
  proof -
    have "(2::int) ^ 1024 = 2 ^ 54 * 2 ^ 970" by (simp only: power_add [symmetric]) simp
    moreover have "(2::int) ^ 54 \<le> 24319437987800679" by simp
    ultimately show ?thesis by (simp only: mult_right_mono zero_le_power zero_le_numeral)
  qed
  have "fmul64 temp_hot (Finite (8106479329266893 / 4503599627370496)) = PosInf"
    unfolding temp_hot_def fmul64.simps p by (rule round64_overflow_int [OF g])
  then show ?thesis
    by (simp only: celsiusToFahrenheit_def sample_lib64_def ieee_simps fadd64.simps)
qed

lemma temp_hot_finite: "is_finite temp_hot"
  by (simp add: temp_hot_def)

lemma sample_hot_handleTemperature:
  assumes "header_Get hdr ''X-CEP'' = ''80010000''"
  shows "handleTemperature sample_lib64 sample_env_b_hot hdr =
     (\<lparr>status = 200, content_type = Some ''application/json'', body = []\<rparr>,
      [directory_url ''80010000'', weather_url sample_lib64 ''secret'' ''Curitiba''])"
proof -
  note f = sample_hot_overflow
  have l: "Localidade (ViaCEPResponse_zero\<lparr>Cep := ''80010-000'', Localidade := ''Curitiba'',
             UF := ''PR''\<rparr>) = ''Curitiba''"
    by simp
  show ?thesis
    unfolding handleTemperature_def assms
    by (simp add: validateCEP_b_80010000 sample_hot_searchCEP l sample_hot_getTemperature f
        Encode_TemperatureResponse_def sample64_fields temp_hot_finite)
qed

text \<open>
  C8, as the specification states it: every body that the Resolver sends with status 200
  comes back from the Gateway's decoding and re-encoding unchanged. When the weather
  service reports \<open>1.348269851146737e308\<close> degrees, the Fahrenheit value is infinite, the
  encoder writes nothing after the status 200 has been sent, and the Resolver's 200
  response has an empty body; the Gateway cannot decode it and answers 500.
\<close>

theorem gateway_roundtrip_counterexample:
  "handleTemperature sample_lib64 sample_env_b_hot
       [(''Content-Type'', ''application/json''), (''X-CEP'', ''80010000'')] =
      (\<lparr>status = 200, content_type = Some ''application/json'', body = []\<rparr>,
       [directory_url ''80010000'', weather_url sample_lib64 ''secret'' ''Curitiba''])
   \<and> handleCEP sample_lib64
        ((sample_env_a (Inl [])) \<lparr>client_Do := resolver_reply sample_lib64 sample_env_b_hot\<rparr>)
        (Inr (JObj [(''cep'', JStr ''80010000'')])) =
      (\<lparr>status = 500, content_type = Some ''text/plain; charset=utf-8'',
        body = ''failed to decode response: unexpected end of JSON input'' @ nl\<rparr>,
       [\<lparr>Method = ''POST'', URL = ''http://servico-b:8081/temperature'',
         Header = [(''Content-Type'', ''application/json''), (''X-CEP'', ''80010000'')]\<rparr>])"
proof -
  let ?E = "(sample_env_a (Inl [])) \<lparr>client_Do := resolver_reply sample_lib64 sample_env_b_hot\<rparr>"
  let ?q = "\<lparr>Method = ''POST'', URL = ''http://servico-b:8081/temperature'',
         Header = [(''Content-Type'', ''application/json''), (''X-CEP'', ''80010000'')]\<rparr>"
  have R: "handleTemperature sample_lib64 sample_env_b_hot
             [(''Content-Type'', ''application/json''), (''X-CEP'', ''80010000'')] =
           (\<lparr>status = 200, content_type = Some ''application/json'', body = []\<rparr>,
            [directory_url ''80010000'', weather_url sample_lib64 ''secret'' ''Curitiba''])"
    by (rule sample_hot_handleTemperature) (simp add: header_Get_def)
  have u: "temperature_url ?E = ''http://servico-b:8081/temperature''"
    by (simp add: temperature_url_def sample_env_a_simps)
  have q: "temperature_request ?E ''80010000'' = ?q"
    by (simp add: temperature_request_def u)
  have d: "resolver_reply sample_lib64 sample_env_b_hot ?q =
      Inr \<lparr>StatusCode = 200, body_data = [], body_err = None\<rparr>"
    by (simp add: resolver_reply_def R)
  have G: "handleCEP sample_lib64 ?E (Inr (JObj [(''cep'', JStr ''80010000'')])) =
      (\<lparr>status = 500, content_type = Some ''text/plain; charset=utf-8'',
        body = ''failed to decode response: unexpected end of JSON input'' @ nl\<rparr>, [?q])"
    unfolding handleCEP_def
    by (simp add: decode_CEPRequest_cep validateCEP_80010000 sample_env_a_simps q d
        unmarshal_def sample64_fields sample_hot_parse http_Error_def)
  show ?thesis using R G by simp
qed

text \<open>
  C8, amended. Every body that the Resolver sends with status 200 is what its encoder
  writes for a \<open>TemperatureResponse\<close>: the text of the document and a newline when the
  three temperatures are values the encoder accepts. When the Gateway receives such a
  document with status 200, and the JSON library reads back from the body the document it
  had written there, the Gateway decodes it into the \<open>CEPResponse\<close> with the same city
  and the same three temperatures, whose JSON document is the one of the original, field
  for field, and the body of the Gateway's own 200 response is the original body.
\<close>

theorem gateway_roundtrip:
  "(status (fst (handleTemperature L EB hdr)) = 200 \<longrightarrow>
      (\<exists>r. body (fst (handleTemperature L EB hdr)) =
             (if unsupported L (TempC_b r) \<or> unsupported L (TempF_b r)
                 \<or> unsupported L (TempK_b r)
              then [] else render L (TemperatureResponse_json r) @ nl)))
   \<and> (decode_CEPRequest L j = Inr req \<and> validateCEP (CEP req)
        \<and> new_request_err E (temperature_url E) = None
        \<and> client_Do E (temperature_request E (CEP req)) = Inr resp
        \<and> body_err resp = None \<and> StatusCode resp = 200
        \<and> \<not> unsupported L (TempC_b r) \<and> \<not> unsupported L (TempF_b r)
        \<and> \<not> unsupported L (TempK_b r)
        \<and> body_data resp = render L (TemperatureResponse_json r) @ nl
        \<and> parse L (body_data resp) = Inr (TemperatureResponse_json r) \<longrightarrow>
      unmarshal L (decode_CEPResponse L) (body_data resp) =
        Inr \<lparr>City = City_b r, TempC = TempC_b r, TempF = TempF_b r, TempK = TempK_b r\<rparr>
      \<and> CEPResponse_json
            \<lparr>City = City_b r, TempC = TempC_b r, TempF = TempF_b r, TempK = TempK_b r\<rparr>
          = TemperatureResponse_json r
      \<and> handleCEP L E (Inr j) =
          (\<lparr>status = 200, content_type = Some ''application/json'', body = body_data resp\<rparr>,
           [temperature_request E (CEP req)]))"
proof (intro conjI impI)
  assume "status (fst (handleTemperature L EB hdr)) = 200"
  then have "\<exists>r. body (fst (handleTemperature L EB hdr)) = Encode_TemperatureResponse L r"
    by (rule handleTemperature_200)
  then show "\<exists>r. body (fst (handleTemperature L EB hdr)) =
             (if unsupported L (TempC_b r) \<or> unsupported L (TempF_b r)
                 \<or> unsupported L (TempK_b r)
              then [] else render L (TemperatureResponse_json r) @ nl)"
    unfolding Encode_TemperatureResponse_def .
next
  assume h: "decode_CEPRequest L j = Inr req \<and> validateCEP (CEP req)
        \<and> new_request_err E (temperature_url E) = None
        \<and> client_Do E (temperature_request E (CEP req)) = Inr resp
        \<and> body_err resp = None \<and> StatusCode resp = 200
        \<and> \<not> unsupported L (TempC_b r) \<and> \<not> unsupported L (TempF_b r)
        \<and> \<not> unsupported L (TempK_b r)
        \<and> body_data resp = render L (TemperatureResponse_json r) @ nl
        \<and> parse L (body_data resp) = Inr (TemperatureResponse_json r)"
  show u: "unmarshal L (decode_CEPResponse L) (body_data resp) =
        Inr \<lparr>City = City_b r, TempC = TempC_b r, TempF = TempF_b r, TempK = TempK_b r\<rparr>"
  proof -
    from h have p: "parse L (body_data resp) = Inr (TemperatureResponse_json r)" by blast
    show ?thesis
      unfolding unmarshal_def p by (simp add: decode_CEPResponse_of_TemperatureResponse)
  qed
  show "CEPResponse_json
            \<lparr>City = City_b r, TempC = TempC_b r, TempF = TempF_b r, TempK = TempK_b r\<rparr>
          = TemperatureResponse_json r"
    by (simp add: CEPResponse_json_def TemperatureResponse_json_def)
  show "handleCEP L E (Inr j) =
          (\<lparr>status = 200, content_type = Some ''application/json'', body = body_data resp\<rparr>,
           [temperature_request E (CEP req)])"
  proof -
    from h have s: "\<not> unsupported L (TempC_b r)" "\<not> unsupported L (TempF_b r)"
      "\<not> unsupported L (TempK_b r)" by blast+
    from h have "body_data resp = render L (TemperatureResponse_json r) @ nl" by blast
    then have b: "body_data resp = Encode_TemperatureResponse L r"
      using s by (simp add: Encode_TemperatureResponse_def)
    from h have g: "decode_CEPRequest L j = Inr req" "validateCEP (CEP req)"
      "new_request_err E (temperature_url E) = None"
      "client_Do E (temperature_request E (CEP req)) = Inr resp"
      "body_err resp = None" "StatusCode resp = 200" by blast+
    show ?thesis
      unfolding handleCEP_def using g u
      by (simp add: Encode_CEPResponse_of_TemperatureResponse b)
  qed
qed

theorem gateway_roundtrip_witness:
  \<open>handleTemperature sample_lib sample_env_b
       [(''Content-Type'', ''application/json''), (''X-CEP'', ''80010000'')] =
      (\<lparr>status = 200, content_type = Some ''application/json'',
        body = ''{"city":"Curitiba","temp_C":25,"temp_F":77,"temp_K":298}'' @ nl\<rparr>,
       [directory_url ''80010000'', weather_url sample_lib ''secret'' ''Curitiba''])
   \<and> handleCEP sample_lib
        ((sample_env_a (Inl [])) \<lparr>client_Do := resolver_reply sample_lib sample_env_b\<rparr>)
        (cep_request ''80010000'') =
      (\<lparr>status = 200, content_type = Some ''application/json'',
        body = ''{"city":"Curitiba","temp_C":25,"temp_F":77,"temp_K":298}'' @ nl\<rparr>,
       [\<lparr>Method = ''POST'', URL = ''http://servico-b:8081/temperature'',
         Header = [(''Content-Type'', ''application/json''), (''X-CEP'', ''80010000'')]\<rparr>])\<close>
proof -
  let ?E = \<open>(sample_env_a (Inl [])) \<lparr>client_Do := resolver_reply sample_lib sample_env_b\<rparr>\<close>
  let ?T = \<open>''{"city":"Curitiba","temp_C":25,"temp_F":77,"temp_K":298}'' @ nl\<close>
  let ?r = \<open>\<lparr>City_b = ''Curitiba'', TempC_b = 25 :: rat, TempF_b = 77, TempK_b = 298\<rparr>\<close>
  let ?resp = \<open>\<lparr>StatusCode = 200, body_data = ?T, body_err = None\<rparr>\<close>
  have R: \<open>handleTemperature sample_lib sample_env_b
             [(''Content-Type'', ''application/json''), (''X-CEP'', ''80010000'')] =
           (\<lparr>status = 200, content_type = Some ''application/json'', body = ?T\<rparr>,
            [directory_url ''80010000'', weather_url sample_lib ''secret'' ''Curitiba''])\<close>
    by (rule sample_handleTemperature_80010000) (simp add: header_Get_def)
  have u: "temperature_url ?E = ''http://servico-b:8081/temperature''"
    by (simp add: temperature_url_def sample_env_a_def)
  have q: "temperature_request ?E ''80010000'' =
      \<lparr>Method = ''POST'', URL = ''http://servico-b:8081/temperature'',
        Header = [(''Content-Type'', ''application/json''), (''X-CEP'', ''80010000'')]\<rparr>"
    by (simp add: temperature_request_def u)
  have h1: "decode_CEPRequest sample_lib (JObj [(''cep'', JStr ''80010000'')]) = Inr \<lparr>CEP = ''80010000''\<rparr>"
    by (rule decode_CEPRequest_cep)
  have h2: "validateCEP (CEP \<lparr>CEP = ''80010000''\<rparr>)"
    by (simp add: validateCEP_80010000)
  have h3: "new_request_err ?E (temperature_url ?E) = None"
    by (simp add: sample_env_a_def)
  have h4: "client_Do ?E (temperature_request ?E (CEP \<lparr>CEP = ''80010000''\<rparr>)) = Inr ?resp"
    by (simp add: q resolver_reply_def R)
  have h5: "body_err ?resp = None" "StatusCode ?resp = 200" by simp_all
  have h6: "body_data ?resp = render sample_lib (TemperatureResponse_json ?r) @ nl"
    by (simp add: TemperatureResponse_json_def sample_render_result)
  have h8: "\<not> unsupported sample_lib (TempC_b ?r)" "\<not> unsupported sample_lib (TempF_b ?r)"
    "\<not> unsupported sample_lib (TempK_b ?r)"
    by (simp_all add: sample_lib_def)
  have h7: "parse sample_lib (body_data ?resp) = Inr (TemperatureResponse_json ?r)"
    unfolding TemperatureResponse_json_def
    by (simp only: http_response.select_convs TemperatureResponse.select_convs
        sample_parse_80010000)
  have "handleCEP sample_lib ?E (Inr (JObj [(''cep'', JStr ''80010000'')])) =
          (\<lparr>status = 200, content_type = Some ''application/json'', body = body_data ?resp\<rparr>,
           [temperature_request ?E (CEP \<lparr>CEP = ''80010000''\<rparr>)])"
    using gateway_roundtrip [where L = sample_lib and E = ?E and EB = sample_env_b
        and hdr = \<open>[]\<close> and j = \<open>JObj [(''cep'', JStr ''80010000'')]\<close>
        and req = \<open>\<lparr>CEP = ''80010000''\<rparr>\<close> and resp = ?resp and r = ?r]
      h1 h2 h3 h4 h5 h6 h7 h8
    by blast
  then show ?thesis using R q by (simp add: cep_request_def)
qed


section \<open>The Gateway in front of the Resolver\<close>

lemma validateCEP_nonempty: "validateCEP c \<Longrightarrow> c \<noteq> []"
  by (auto simp: validateCEP_def)

lemma handleCEP_calls:
  assumes "q \<in> set (snd (handleCEP L E reqBody))"
  shows "\<exists>c. validateCEP c \<and> q = temperature_request E c"
  using assms
  by (auto simp: handleCEP_def Let_def split: sum.splits if_splits option.splits)

lemma handleTemperature_calls:
  assumes "header_Get hdr ''X-CEP'' = cep" and "cep \<noteq> []" and "validateCEP_b cep"
  shows "\<exists>calls. snd (handleTemperature L E hdr) = directory_url cep # calls"
proof -
  obtain r where s: "searchCEP L E cep = (r, [directory_url cep])"
    using searchCEP_calls [of L E cep] by (cases "searchCEP L E cep") auto
  show ?thesis
    using assms s
    by (auto simp: handleTemperature_def Let_def split: sum.splits prod.splits)
qed

text \<open>
  C10. The validator of the Gateway and the validator of the Resolver agree on every
  string. Hence every request that the Gateway sends carries an \<open>X-CEP\<close> value that is
  present and passes the Resolver's validator: given the headers of such a request, the
  Resolver goes on to fetch the directory's URL for that code, and its answer is never the
  rejection of its own validation step (422 with no URL fetched).
\<close>

theorem validators_agree:
  "validateCEP cep = validateCEP_b cep
   \<and> (q \<in> set (snd (handleCEP L E reqBody)) \<longrightarrow>
        header_Get (Header q) ''X-CEP'' \<noteq> []
        \<and> validateCEP_b (header_Get (Header q) ''X-CEP'')
        \<and> (\<exists>calls. snd (handleTemperature L' E' (Header q)) =
               directory_url (header_Get (Header q) ''X-CEP'') # calls)
        \<and> handleTemperature L' E' (Header q) \<noteq> (write_error_json L' 422 ''invalid zipcode'', []))"
proof (intro conjI impI)
  show eq: "validateCEP cep = validateCEP_b cep"
    by (simp add: validateCEP_def validateCEP_b_def)
  assume "q \<in> set (snd (handleCEP L E reqBody))"
  then obtain c where c: "validateCEP c" "q = temperature_request E c"
    using handleCEP_calls by blast
  have h: "header_Get (Header q) ''X-CEP'' = c"
    using c(2) by (simp add: temperature_request_def header_Get_def)
  show ne: "header_Get (Header q) ''X-CEP'' \<noteq> []"
    using h c(1) validateCEP_nonempty by simp
  show v: "validateCEP_b (header_Get (Header q) ''X-CEP'')"
    using h c(1) by (simp add: validateCEP_def validateCEP_b_def)
  show d: "\<exists>calls. snd (handleTemperature L' E' (Header q)) =
               directory_url (header_Get (Header q) ''X-CEP'') # calls"
    using handleTemperature_calls [OF refl ne v] .
  then show "handleTemperature L' E' (Header q) \<noteq> (write_error_json L' 422 ''invalid zipcode'', [])"
    by auto
qed

theorem validators_agree_witness:
  \<open>validateCEP ''80010000'' = validateCEP_b ''80010000''
   \<and> validateCEP_b ''80010000''
   \<and> (\<exists>calls. snd (handleTemperature sample_lib sample_env_b
                      [(''Content-Type'', ''application/json''), (''X-CEP'', ''80010000'')]) =
          directory_url ''80010000'' # calls)
   \<and> handleTemperature sample_lib sample_env_b
        [(''Content-Type'', ''application/json''), (''X-CEP'', ''80010000'')]
       \<noteq> (write_error_json sample_lib 422 ''invalid zipcode'', [])\<close>
proof -
  let ?E = \<open>sample_env_a (reply 404 [])\<close>
  let ?q = \<open>\<lparr>Method = ''POST'', URL = ''http://servico-b:8081/temperature'',
         Header = [(''Content-Type'', ''application/json''), (''X-CEP'', ''80010000'')]\<rparr>\<close>
  have q: "temperature_request ?E ''80010000'' = ?q"
    by (simp add: temperature_request_def temperature_url_def sample_env_a_def)
  have "handleCEP sample_lib ?E (cep_request ''80010000'') =
          (\<lparr>status = 404, content_type = Some ''application/json'', body = []\<rparr>, [?q])"
  proof -
    have n: "\<And>u. new_request_err ?E u = None"
      and d: "\<And>x. client_Do ?E x = Inr \<lparr>StatusCode = 404, body_data = [], body_err = None\<rparr>"
      by (simp_all add: sample_env_a_def reply_def)
    show ?thesis
      unfolding handleCEP_def cep_request_def
      by (simp add: decode_CEPRequest_cep validateCEP_80010000 q n d)
  qed
  then have m: "?q \<in> set (snd (handleCEP sample_lib ?E (cep_request ''80010000'')))"
    by simp
  show ?thesis
    using validators_agree [where cep = \<open>''80010000''\<close> and q = ?q and L = sample_lib and E = ?E
        and reqBody = \<open>cep_request ''80010000''\<close> and L' = sample_lib and E' = sample_env_b] m
    by (simp add: header_Get_def)
qed


section \<open>Properties of the tracing bootstrap\<close>

lemma attempt_time_le: "attempt_time dials i \<le> dialTimeout"
  by (cases "dials i") (auto simp: attempt_time_def)

lemma attempted_simps:
  "attempts (attempted t d) = attempts t + 1" "sleeps (attempted t d) = sleeps t"
  "elapsed (attempted t d) = elapsed t + d"
  by (simp_all add: attempted_def)

lemma slept_simps:
  "attempts (slept t) = attempts t" "sleeps (slept t) = sleeps t + 1"
  "elapsed (slept t) = elapsed t + retryDelay"
  by (simp_all add: slept_def)

lemma loop_success:
  assumes "i < maxRetries" and "DialContext dialTimeout (dials i) = (None, d)"
  shows "connect_loop dials i t = (Inr (Some i), attempted t d)"
  using assms by (subst connect_loop.simps) simp

lemma loop_retry:
  assumes "i < maxRetries - 1" and "DialContext dialTimeout (dials i) = (Some e, d)"
  shows "connect_loop dials i t = connect_loop dials (i + 1) (slept (attempted t d))"
proof -
  have "i < maxRetries" using assms(1) by simp
  then show ?thesis using assms by (subst connect_loop.simps) simp
qed

lemma loop_giveup:
  assumes "i < maxRetries" and "\<not> i < maxRetries - 1"
    and "DialContext dialTimeout (dials i) = (Some e, d)"
  shows "connect_loop dials i t = (Inl (giveup_error e), attempted t d)"
  using assms by (subst connect_loop.simps) simp

lemma connect_loop_cases [consumes 1, case_names success retry giveup]:
  assumes "i < maxRetries"
    and "\<And>i t d. i < maxRetries \<Longrightarrow> DialContext dialTimeout (dials i) = (None, d) \<Longrightarrow>
            P i t (Inr (Some i), attempted t d)"
    and "\<And>i t e d. i < maxRetries - 1 \<Longrightarrow> DialContext dialTimeout (dials i) = (Some e, d) \<Longrightarrow>
            P (i + 1) (slept (attempted t d)) (connect_loop dials (i + 1) (slept (attempted t d))) \<Longrightarrow>
            P i t (connect_loop dials (i + 1) (slept (attempted t d)))"
    and "\<And>i t e d. i < maxRetries \<Longrightarrow> \<not> i < maxRetries - 1 \<Longrightarrow>
            DialContext dialTimeout (dials i) = (Some e, d) \<Longrightarrow>
            P i t (Inl (giveup_error e), attempted t d)"
  shows "P i t (connect_loop dials i t)"
  using assms(1)
proof (induction "maxRetries - i" arbitrary: i t)
  case 0
  then show ?case by simp
next
  case (Suc n)
  obtain err d where D: "DialContext dialTimeout (dials i) = (err, d)"
    by (cases "DialContext dialTimeout (dials i)") auto
  show ?case
  proof (cases err)
    case None
    have D': "DialContext dialTimeout (dials i) = (None, d)" using D None by simp
    have "P i t (Inr (Some i), attempted t d)"
      using Suc.prems D' by (rule assms(2))
    then show ?thesis
      by (simp only: loop_success [where dials = dials and i = i, OF Suc.prems D'])
  next
    case (Some e)
    have D': "DialContext dialTimeout (dials i) = (Some e, d)" using D Some by simp
    show ?thesis
    proof (cases "i < maxRetries - 1")
      case True
      have n: "n = maxRetries - (i + 1)" using Suc.hyps(2) by simp
      have lt: "i + 1 < maxRetries" using True by simp
      have "P (i + 1) (slept (attempted t d)) (connect_loop dials (i + 1) (slept (attempted t d)))"
        using n lt by (rule Suc.hyps(1))
      with True D' have "P i t (connect_loop dials (i + 1) (slept (attempted t d)))"
        by (rule assms(3))
      then show ?thesis
        by (simp only: loop_retry [where dials = dials and i = i, OF True D'])
    next
      case False
      have "P i t (Inl (giveup_error e), attempted t d)"
        using Suc.prems False D' by (rule assms(4))
      then show ?thesis
        by (simp only: loop_giveup [where dials = dials and i = i, OF Suc.prems False D'])
    qed
  qed
qed

lemma loop_counts:
  assumes "i < maxRetries" and "connect_loop dials i t = (r, t')"
  shows "attempts t < attempts t' \<and> attempts t' \<le> attempts t + (maxRetries - i)
         \<and> sleeps t' + attempts t + 1 = sleeps t + attempts t'"
proof -
  have "case connect_loop dials i t of (r, t') \<Rightarrow>
          attempts t < attempts t' \<and> attempts t' \<le> attempts t + (maxRetries - i)
          \<and> sleeps t' + attempts t + 1 = sleeps t + attempts t'"
    using assms(1)
    by (induction rule: connect_loop_cases)
       (auto simp: attempted_simps slept_simps split: prod.splits)
  then show ?thesis using assms(2) by simp
qed

lemma loop_elapsed:
  assumes "i < maxRetries" and "connect_loop dials i t = (r, t')"
  shows "elapsed t' + dialTimeout * attempts t + retryDelay * sleeps t
           \<le> elapsed t + dialTimeout * attempts t' + retryDelay * sleeps t'"
proof -
  have "case connect_loop dials i t of (r, t') \<Rightarrow>
          elapsed t' + dialTimeout * attempts t + retryDelay * sleeps t
           \<le> elapsed t + dialTimeout * attempts t' + retryDelay * sleeps t'"
    using assms(1)
  proof (induction rule: connect_loop_cases)
    case (success i t d)
    have "d \<le> dialTimeout" using attempt_time_le [of dials i] success by (simp add: attempt_time_def)
    then show ?case by (simp add: attempted_simps)
  next
    case (retry i t e d)
    have "d \<le> dialTimeout" using attempt_time_le [of dials i] retry by (simp add: attempt_time_def)
    with retry(3) show ?case
      by (auto simp: attempted_simps slept_simps algebra_simps split: prod.splits)
  next
    case (giveup i t e d)
    have "d \<le> dialTimeout" using attempt_time_le [of dials i] giveup by (simp add: attempt_time_def)
    then show ?case by (simp add: attempted_simps)
  qed
  then show ?thesis using assms(2) by simp
qed

lemma all_from_split:
  assumes "i + 1 < (n::nat)"
  shows "(\<forall>k. i \<le> k \<and> k < n \<longrightarrow> P k) \<longleftrightarrow> P i \<and> (\<forall>k. i + 1 \<le> k \<and> k < n \<longrightarrow> P k)"
proof
  assume a: "\<forall>k. i \<le> k \<and> k < n \<longrightarrow> P k"
  show "P i \<and> (\<forall>k. i + 1 \<le> k \<and> k < n \<longrightarrow> P k)" using a assms by auto
next
  assume a: "P i \<and> (\<forall>k. i + 1 \<le> k \<and> k < n \<longrightarrow> P k)"
  show "\<forall>k. i \<le> k \<and> k < n \<longrightarrow> P k"
  proof (intro allI impI)
    fix k assume "i \<le> k \<and> k < n"
    then show "P k" using a by (cases "k = i") auto
  qed
qed

lemma loop_error_iff:
  assumes "i < maxRetries" and "connect_loop dials i t = (r, t')"
  shows "((\<exists>e. r = Inl e) \<longleftrightarrow> (\<forall>k. i \<le> k \<and> k < maxRetries \<longrightarrow> attempt_fails dials k))
         \<and> ((\<exists>e. r = Inl e) \<longrightarrow> attempts t' = attempts t + (maxRetries - i))
         \<and> r \<noteq> Inr None"
proof -
  have "case connect_loop dials i t of (r, t') \<Rightarrow>
          ((\<exists>e. r = Inl e) \<longleftrightarrow> (\<forall>k. i \<le> k \<and> k < maxRetries \<longrightarrow> attempt_fails dials k))
          \<and> ((\<exists>e. r = Inl e) \<longrightarrow> attempts t' = attempts t + (maxRetries - i))
          \<and> r \<noteq> Inr None"
    using assms(1)
  proof (induction rule: connect_loop_cases)
    case (success i t d)
    then have "\<not> attempt_fails dials i" by (simp add: attempt_fails_def)
    with success show ?case by auto
  next
    case (retry i t e d)
    then have f: "attempt_fails dials i" by (simp add: attempt_fails_def)
    have lt: "i + 1 < maxRetries" using retry(1) by simp
    show ?case
      using retry(3) f lt
      by (auto simp: all_from_split [OF lt] attempted_simps slept_simps split: prod.splits)
  next
    case (giveup i t e d)
    then have f: "attempt_fails dials i" by (simp add: attempt_fails_def)
    have "\<And>k. i \<le> k \<Longrightarrow> k < maxRetries \<Longrightarrow> k = i" using giveup(1,2) by simp
    with f giveup(1,2) show ?case by (auto simp: attempted_simps)
  qed
  then show ?thesis using assms(2) by simp
qed


lemma run_late:
  "connect_loop collector_late 0 trace0 =
     (Inl (giveup_error ''context deadline exceeded''),
      \<lparr>attempts = 20, sleeps = 19, elapsed = 138000\<rparr>)"
  by (simp add: connect_loop.simps maxRetries_def collector_late_def dialTimeout_def
      retryDelay_def trace0_def attempted_def slept_def)

lemma run_refusing:
  "connect_loop collector_refusing 0 trace0 =
     (Inl (giveup_error ''connection refused''),
      \<lparr>attempts = 20, sleeps = 19, elapsed = 38000\<rparr>)"
  by (simp add: connect_loop.simps maxRetries_def collector_refusing_def dialTimeout_def
      retryDelay_def trace0_def attempted_def slept_def)

lemma run_third:
  "connect_loop collector_up_at_third 0 trace0 =
     (Inr (Some 2), \<lparr>attempts = 3, sleeps = 2, elapsed = 14120\<rparr>)"
  by (simp add: connect_loop.simps maxRetries_def collector_up_at_third_def dialTimeout_def
      retryDelay_def trace0_def attempted_def slept_def)


lemma main_startup_error:
  "serving (main_startup (Inl e)) \<and> \<not> tracing (main_startup (Inl e))"
  by (simp add: main_startup_def)

lemma initProvider_loop:
  assumes "connect_loop dials 0 trace0 = (r, t)"
  shows "initProvider None dials None = (case r of Inl e \<Rightarrow> Inl e | Inr c \<Rightarrow> Inr (), t)"
  using assms by (simp add: initProvider_def split: sum.splits)

text \<open>
  C9, as the specification states it: the loop blocks the start of the process for 40
  seconds (20 times 2 seconds) in the worst case. When the collector cannot be reached
  within the timeout at any attempt, the loop makes its 20 attempts, sleeps 19 times and
  gives up after 138 seconds, not 40; and even when every dial is refused at once, the
  19 sleeps add up to 38 seconds.
\<close>

theorem bootstrap_worst_case_counterexample:
  "fst (connect_loop collector_late 0 trace0) = Inl (giveup_error ''context deadline exceeded'')
   \<and> attempts (snd (connect_loop collector_late 0 trace0)) = 20
   \<and> sleeps (snd (connect_loop collector_late 0 trace0)) = 19
   \<and> elapsed (snd (connect_loop collector_late 0 trace0)) = 138000
   \<and> \<not> elapsed (snd (connect_loop collector_late 0 trace0)) \<le> 40000
   \<and> elapsed (snd (connect_loop collector_refusing 0 trace0)) = 38000"
  by (simp add: run_late run_refusing)

text \<open>
  C9, amended. The loop makes at least one and at most 20 attempts, each of which ends
  within the 5 seconds of its timeout, and sleeps 2 seconds after every failed attempt but
  the twentieth, so that the sleeps are one fewer than the attempts. It returns an error
  exactly when all 20 attempts fail, after 20 attempts and 19 sleeps. The time it blocks
  is at most 5 seconds for each attempt and 2 seconds for each sleep, hence at most
  20 * 5 + 19 * 2 = 138 seconds. When the resource and the exporter are created without
  error, \<open>initProvider\<close> returns an error exactly when all 20 attempts fail; and on an error
  of \<open>initProvider\<close>, \<open>main\<close> goes on to serve, without tracing.
\<close>

theorem bootstrap_loop_bounds:
  assumes "connect_loop dials 0 trace0 = (r, t)"
  shows "1 \<le> attempts t \<and> attempts t \<le> 20
         \<and> sleeps t + 1 = attempts t
         \<and> attempt_time dials i \<le> 5000
         \<and> ((\<exists>e. r = Inl e) \<longleftrightarrow> (\<forall>k<20. attempt_fails dials k))
         \<and> ((\<exists>e. r = Inl e) \<longrightarrow> attempts t = 20 \<and> sleeps t = 19)
         \<and> elapsed t \<le> 5000 * attempts t + 2000 * sleeps t
         \<and> elapsed t \<le> 138000
         \<and> ((\<exists>e. fst (initProvider None dials None) = Inl e) \<longleftrightarrow>
               (\<forall>k<20. attempt_fails dials k))
         \<and> snd (initProvider None dials None) = t
         \<and> serving (main_startup (Inl e)) \<and> \<not> tracing (main_startup (Inl e))"
proof -
  have lt: "0 < maxRetries" by (simp add: maxRetries_def)
  note c = loop_counts [OF lt assms]
  note l = loop_elapsed [OF lt assms]
  note e = loop_error_iff [OF lt assms]
  have a1: "1 \<le> attempts t" "attempts t \<le> 20" "sleeps t + 1 = attempts t"
    using c by (simp_all add: trace0_def maxRetries_def)
  have a2: "attempt_time dials i \<le> 5000"
    using attempt_time_le [of dials i] by (simp add: dialTimeout_def)
  have a3: "(\<exists>e. r = Inl e) \<longleftrightarrow> (\<forall>k<20. attempt_fails dials k)"
    using e by (simp add: maxRetries_def)
  have a4: "(\<exists>e. r = Inl e) \<longrightarrow> attempts t = 20 \<and> sleeps t = 19"
    using e a1(3) by (auto simp: trace0_def maxRetries_def)
  have a5: "elapsed t \<le> 5000 * attempts t + 2000 * sleeps t"
    using l by (simp add: trace0_def dialTimeout_def retryDelay_def)
  have a6: "elapsed t \<le> 138000"
    using a5 a1 by simp
  have a7: "(\<exists>e. fst (initProvider None dials None) = Inl e) \<longleftrightarrow> (\<forall>k<20. attempt_fails dials k)"
    unfolding a3 [symmetric] initProvider_loop [OF assms] by (cases r) auto
  have a8: "snd (initProvider None dials None) = t"
    unfolding initProvider_loop [OF assms] by simp
  show ?thesis
    using a1 a2 a3 a4 a5 a6 a7 a8 main_startup_error [of e] by blast
qed

theorem bootstrap_loop_bounds_witness:
  "connect_loop collector_up_at_third 0 trace0 =
     (Inr (Some 2), \<lparr>attempts = 3, sleeps = 2, elapsed = 14120\<rparr>)
   \<and> \<not> (\<forall>k<20. attempt_fails collector_up_at_third k)
   \<and> fst (initProvider None collector_up_at_third None) = Inr ()
   \<and> connect_loop collector_late 0 trace0 =
       (Inl (giveup_error ''context deadline exceeded''),
        \<lparr>attempts = 20, sleeps = 19, elapsed = 138000\<rparr>)
   \<and> attempt_fails collector_late 0 \<and> attempt_fails collector_late 19
   \<and> (\<exists>e. fst (initProvider None collector_late None) = Inl e)
   \<and> serving (main_startup (fst (initProvider None collector_late None)))
   \<and> \<not> tracing (main_startup (fst (initProvider None collector_late None)))"
proof -
  note a = bootstrap_loop_bounds [OF run_third]
  note b = bootstrap_loop_bounds [OF run_late]
  have a': "\<not> (\<forall>k<20. attempt_fails collector_up_at_third k)" using a by simp
  have b': "\<forall>k<20. attempt_fails collector_late k" using b by simp
  have i1: "fst (initProvider None collector_up_at_third None) = Inr ()"
    using initProvider_loop [OF run_third] by simp
  from b b' obtain e where i2: "fst (initProvider None collector_late None) = Inl e" by blast
  have m: "serving (main_startup (Inl e)) \<and> \<not> tracing (main_startup (Inl e))"
    using b by blast
  have b'': "attempt_fails collector_late 0 \<and> attempt_fails collector_late 19"
    using b' by simp
  show ?thesis
    using run_third run_late a' b'' i1 i2 m by simp
qed


end
